theory Spec2Isabelle
  imports Complex_Main "HOL-Library.Word" "HOL-Library.Multiset"
begin

unbundle bit_operations_syntax

section \<open>Index containers\<close>

text \<open>
  An \<open>IntIntMap\<close> is a linked list of \<open>IntPair\<close> records; \<open>add_to_intintmap\<close> appends
  at the tail and \<open>find_in_intintmap\<close> returns the value of the first pair whose key
  matches. The C out-parameter \<open>r_val\<close> together with the boolean result is an option.
\<close>

type_synonym IntIntMap = "(int \<times> int) list"

fun find_in_intintmap :: "IntIntMap \<Rightarrow> int \<Rightarrow> int option" where
  "find_in_intintmap [] key = None"
| "find_in_intintmap ((first, second) # rest) key =
     (if first = key then Some second else find_in_intintmap rest key)"

definition add_to_intintmap :: "IntIntMap \<Rightarrow> int \<Rightarrow> int \<Rightarrow> IntIntMap" where
  "add_to_intintmap m key val = m @ [(key, val)]"

section \<open>Vertex merge resolution\<close>

text \<open>
  \<open>resolve_merge\<close> is a bare \<open>while\<close> loop around \<open>find_in_intintmap\<close>. Nothing in
  the loop bounds the number of iterations, so the loop is a partial function: the value
  \<open>None\<close> stands for a call that never returns.
\<close>

partial_function (option) resolve_merge :: "int \<Rightarrow> IntIntMap \<Rightarrow> int option" where
  "resolve_merge vmapped vert_merge_map =
     (case find_in_intintmap vert_merge_map vmapped of
        Some target \<Rightarrow> resolve_merge target vert_merge_map
      | None \<Rightarrow> Some vmapped)"

text \<open>
  The same loop with a budget on the number of executions of the loop body
  (\<open>vmapped = target\<close>); it answers \<open>None\<close> when the budget does not suffice.
\<close>

fun resolve_merge_fuel :: "nat \<Rightarrow> int \<Rightarrow> IntIntMap \<Rightarrow> int option" where
  "resolve_merge_fuel 0 vmapped vert_merge_map =
     (case find_in_intintmap vert_merge_map vmapped of
        Some target \<Rightarrow> None
      | None \<Rightarrow> Some vmapped)"
| "resolve_merge_fuel (Suc n) vmapped vert_merge_map =
     (case find_in_intintmap vert_merge_map vmapped of
        Some target \<Rightarrow> resolve_merge_fuel n target vert_merge_map
      | None \<Rightarrow> Some vmapped)"

text \<open>The lookup relation of a merge map, and acyclicity of the map.\<close>

definition merge_rel :: "IntIntMap \<Rightarrow> (int \<times> int) set" where
  "merge_rel m = {(k, t). find_in_intintmap m k = Some t}"

definition acyclic_map :: "IntIntMap \<Rightarrow> bool" where
  "acyclic_map m \<longleftrightarrow> acyclic (merge_rel m)"

section \<open>Change buffer\<close>

text \<open>
  \<open>NewEdge\<close> and the edge part of \<open>MeshAdd\<close>. The growing array \<open>edges\<close> with its
  count \<open>totedge\<close> is a list (\<open>totedge\<close> is its length; the capacity doubling only moves
  the array). Indices are C \<open>int\<close>s; no arithmetic on them overflows below
  \<open>2^31\<close> staged edges, so they are modelled as \<open>int\<close>.
\<close>

record NewEdge =
  v1 :: int
  v2 :: int
  example :: int

text \<open>
  Modelled from the spec: \<open>EdgeHash\<close> (\<open>BLI_edgehash.h\<close>) lives outside the files
  modelled here. The spec describes it as "a hash from unordered endpoint pairs to
  positions", so it is a finite map keyed by the pair (smaller endpoint, larger
  endpoint) of the endpoints after their cast to \<open>uint\<close>.
\<close>

type_synonym EdgeHash = "(nat \<times> nat) \<rightharpoonup> int"

definition uint_of_int :: "int \<Rightarrow> nat" where
  "uint_of_int i = nat (i mod 2 ^ 32)"

definition edgehash_key :: "nat \<Rightarrow> nat \<Rightarrow> nat \<times> nat" where
  "edgehash_key a b = (if a < b then (a, b) else (b, a))"

definition BLI_edgehash_lookup_default :: "EdgeHash \<Rightarrow> nat \<Rightarrow> nat \<Rightarrow> int \<Rightarrow> int" where
  "BLI_edgehash_lookup_default eh a b default_value =
     (case eh (edgehash_key a b) of None \<Rightarrow> default_value | Some val \<Rightarrow> val)"

definition BLI_edgehash_insert :: "EdgeHash \<Rightarrow> nat \<Rightarrow> nat \<Rightarrow> int \<Rightarrow> EdgeHash" where
  "BLI_edgehash_insert eh a b val = eh(edgehash_key a b \<mapsto> val)"

text \<open>
  Coordinates: a \<open>double[3]\<close> or \<open>float[3]\<close> array is a triple of reals; where the
  source narrows a \<open>double\<close> to \<open>float\<close> the rounding is an explicit function
  argument of the model.
\<close>

type_synonym vec3 = "real \<times> real \<times> real"

record NewVert =
  co :: vec3
  v_example :: int

text \<open>
  \<open>MeshAdd\<close>, without the staged faces (no property below reads them). The field
  \<open>example\<close> of \<open>NewVert\<close> is called \<open>v_example\<close> here, since record fields share
  one name space.
\<close>

record MeshAdd =
  verts :: "NewVert list"
  edges :: "NewEdge list"
  edge_hash :: EdgeHash
  vindex_start :: int
  eindex_start :: int

definition meshadd_totedge :: "MeshAdd \<Rightarrow> int" where
  "meshadd_totedge meshadd = int (length (edges meshadd))"

text \<open>
  \<open>meshadd_add_edge\<close>: with \<open>checkdup\<close> the hash is consulted first and a hit returns
  the looked-up value \<open>i\<close> as it is; otherwise the edge is appended, its position is
  recorded in the hash, and \<open>eindex_start + totedge - 1\<close> is returned. The result pairs
  the updated buffer with the returned index.
\<close>

definition meshadd_add_edge ::
  "MeshAdd \<Rightarrow> int \<Rightarrow> int \<Rightarrow> int \<Rightarrow> bool \<Rightarrow> MeshAdd \<times> int" where
  "meshadd_add_edge meshadd a b eg checkdup =
     (let i = (if checkdup
               then BLI_edgehash_lookup_default (edge_hash meshadd)
                      (uint_of_int a) (uint_of_int b) (- 1)
               else - 1)
      in if checkdup \<and> i \<noteq> - 1 then (meshadd, i)
         else
           (let newe = \<lparr>v1 = a, v2 = b, example = eg\<rparr>;
                pos = meshadd_totedge meshadd;
                meshadd' = meshadd
                  \<lparr>edges := edges meshadd @ [newe],
                   edge_hash := BLI_edgehash_insert (edge_hash meshadd)
                                  (uint_of_int a) (uint_of_int b) pos\<rparr>
            in (meshadd', eindex_start meshadd' + meshadd_totedge meshadd' - 1)))"

text \<open>The sibling lookup \<open>find_edge_by_verts_in_meshadd\<close> of the same hash.\<close>

definition find_edge_by_verts_in_meshadd :: "MeshAdd \<Rightarrow> int \<Rightarrow> int \<Rightarrow> int" where
  "find_edge_by_verts_in_meshadd meshadd a b =
     (let i = BLI_edgehash_lookup_default (edge_hash meshadd)
                (uint_of_int a) (uint_of_int b) (- 1)
      in if i \<noteq> - 1 then eindex_start meshadd + i else - 1)"

definition init_meshadd :: "int \<Rightarrow> int \<Rightarrow> MeshAdd" where
  "init_meshadd imesh_totvert imesh_totedge =
     \<lparr>verts = [], edges = [], edge_hash = Map.empty,
      vindex_start = imesh_totvert, eindex_start = imesh_totedge\<rparr>"

text \<open>
  An \<open>IntSet\<close> is a linked list without duplicates; \<open>add_to_intset\<close> prepends a value
  that is not yet a member.
\<close>

type_synonym IntSet = "int list"

fun find_in_intset :: "IntSet \<Rightarrow> int \<Rightarrow> bool" where
  "find_in_intset [] val = False"
| "find_in_intset (x # rest) val = (if x = val then True else find_in_intset rest val)"

definition add_to_intset :: "IntSet \<Rightarrow> int \<Rightarrow> IntSet" where
  "add_to_intset set_list val = (if \<not> find_in_intset set_list val then val # set_list else set_list)"

text \<open>
  \<open>MeshDelete\<close>: three bitmaps sized at the element counts of the host mesh.
  \<open>MeshChange\<close>: the whole staged edit.
\<close>

record MeshDelete =
  vert_bmap :: "bool list"
  edge_bmap :: "bool list"
  face_bmap :: "bool list"

definition init_meshdelete :: "nat \<Rightarrow> nat \<Rightarrow> nat \<Rightarrow> MeshDelete" where
  "init_meshdelete nv ne nf =
     \<lparr>vert_bmap = replicate nv False, edge_bmap = replicate ne False,
      face_bmap = replicate nf False\<rparr>"

definition meshdelete_add_face :: "MeshDelete \<Rightarrow> int \<Rightarrow> MeshDelete" where
  "meshdelete_add_face meshdelete f =
     meshdelete\<lparr>face_bmap := (face_bmap meshdelete)[nat f := True]\<rparr>"

definition meshdelete_find_face :: "MeshDelete \<Rightarrow> int \<Rightarrow> bool" where
  "meshdelete_find_face meshdelete f = face_bmap meshdelete ! nat f"

record MeshChange =
  add :: MeshAdd
  delete :: MeshDelete
  vert_merge_map :: IntIntMap
  intersection_edges :: IntSet
  face_flip :: IntSet
  use_face_kill_loose :: bool

definition init_meshchange :: "nat \<Rightarrow> nat \<Rightarrow> nat \<Rightarrow> MeshChange" where
  "init_meshchange nv ne nf =
     \<lparr>add = init_meshadd (int nv) (int ne),
      delete = init_meshdelete nv ne nf,
      vert_merge_map = [],
      intersection_edges = [],
      face_flip = [],
      use_face_kill_loose = False\<rparr>"

section \<open>Vector arithmetic and the arc tangent\<close>

text \<open>
  The double-precision vector helpers of the math library, on exact reals, and the
  C library's two-argument arc tangent with its quadrant rules.
\<close>

fun sub_v3_v3v3_db :: "vec3 \<Rightarrow> vec3 \<Rightarrow> vec3" where
  "sub_v3_v3v3_db (a0, a1, a2) (b0, b1, b2) = (a0 - b0, a1 - b1, a2 - b2)"

fun add_v3_v3v3_db :: "vec3 \<Rightarrow> vec3 \<Rightarrow> vec3" where
  "add_v3_v3v3_db (a0, a1, a2) (b0, b1, b2) = (a0 + b0, a1 + b1, a2 + b2)"

fun dot_v3v3_db :: "vec3 \<Rightarrow> vec3 \<Rightarrow> real" where
  "dot_v3v3_db (a0, a1, a2) (b0, b1, b2) = a0 * b0 + a1 * b1 + a2 * b2"

fun cross_v3_v3v3_db :: "vec3 \<Rightarrow> vec3 \<Rightarrow> vec3" where
  "cross_v3_v3v3_db (a0, a1, a2) (b0, b1, b2) =
     (a1 * b2 - a2 * b1, a2 * b0 - a0 * b2, a0 * b1 - a1 * b0)"

definition len_v3_db :: "vec3 \<Rightarrow> real" where
  "len_v3_db a = sqrt (dot_v3v3_db a a)"

definition len_squared_v3v3_db :: "vec3 \<Rightarrow> vec3 \<Rightarrow> real" where
  "len_squared_v3v3_db a b = dot_v3v3_db (sub_v3_v3v3_db a b) (sub_v3_v3v3_db a b)"

fun compare_v3v3_db :: "vec3 \<Rightarrow> vec3 \<Rightarrow> real \<Rightarrow> bool" where
  "compare_v3v3_db (a0, a1, a2) (b0, b1, b2) limit =
     (\<bar>a0 - b0\<bar> \<le> limit \<and> \<bar>a1 - b1\<bar> \<le> limit \<and> \<bar>a2 - b2\<bar> \<le> limit)"

definition atan2 :: "real \<Rightarrow> real \<Rightarrow> real" where
  "atan2 y x =
     (if 0 < x then arctan (y / x)
      else if x < 0 then (if 0 \<le> y then arctan (y / x) + pi else arctan (y / x) - pi)
      else if 0 < y then pi / 2
      else if y < 0 then - (pi / 2)
      else 0)"

section \<open>Winding classifier and boolean operator\<close>

definition SIDE_A :: int where "SIDE_A = 1"
definition SIDE_B :: int where "SIDE_B = 2"
definition BOTH_SIDES_OPP_NORMALS :: int where "BOTH_SIDES_OPP_NORMALS = 4"

text \<open>
  What the classifier reads of the host mesh through \<open>IMesh\<close>: the element counts,
  for each face the coordinate triples \<open>(p1, p2, p3)\<close> of the \<open>flen - 2\<close> triangles that
  \<open>imesh_face_calc_tesselation\<close>, \<open>imesh_face_vert\<close> and \<open>imesh_get_vert_co_db\<close>
  deliver, and the point that \<open>imesh_calc_point_in_face\<close> computes.
\<close>

record IMesh =
  totvert :: nat
  totedge :: nat
  totface :: nat
  face_tess :: "nat \<Rightarrow> (vec3 \<times> vec3 \<times> vec3) list"
  point_in_face :: "nat \<Rightarrow> vec3"

record BoolState =
  im :: IMesh
  eps :: real
  face_side :: "8 word list"

text \<open>Reading \<open>bs->face_side[f]\<close> into an \<open>int\<close> variable.\<close>

definition face_side_at :: "BoolState \<Rightarrow> nat \<Rightarrow> int" where
  "face_side_at bs f = uint (face_side bs ! f)"

text \<open>
  The body of the inner loop of \<open>generalized_winding_number\<close>: the signed solid angle
  of one triangle seen from \<open>co\<close> by the formula of van Oosterom and Strackee, negated
  when the flag \<open>negate\<close> of the face is set.
\<close>

definition triangle_fgwn :: "bool \<Rightarrow> vec3 \<Rightarrow> vec3 \<times> vec3 \<times> vec3 \<Rightarrow> real" where
  "triangle_fgwn negate pt tri =
     (case tri of (p1, p2, p3) \<Rightarrow>
        let a = sub_v3_v3v3_db p1 pt;
            b = sub_v3_v3v3_db p2 pt;
            c = sub_v3_v3v3_db p3 pt;
            alen = len_v3_db a;
            blen = len_v3_db b;
            clen = len_v3_db c;
            bxc = cross_v3_v3v3_db b c;
            num = dot_v3v3_db a bxc;
            denom0 = alen * blen * clen + dot_v3v3_db a b * clen + dot_v3v3_db a c * blen
                       + dot_v3v3_db b c * alen;
            denom = (if denom0 = 0 then 10 / 10 ^ 10 else denom0);
            x = atan2 num denom;
            fgwn = 2 * x
        in if negate then - fgwn else fgwn)"

text \<open>
  The flag of a face, as the source computes it: the \<open>int\<close> value
  \<open>fside | BOTH_SIDES_OPP_NORMALS\<close> converted to \<open>bool\<close>.
\<close>

definition face_negate :: "int \<Rightarrow> bool" where
  "face_negate fside = ((fside OR BOTH_SIDES_OPP_NORMALS) \<noteq> 0)"

definition generalized_winding_number :: "BoolState \<Rightarrow> int \<Rightarrow> vec3 \<Rightarrow> real" where
  "generalized_winding_number bs side pt =
     fold (\<lambda>f gwn.
             let fside = face_side_at bs f
             in if (fside AND side) = 0 then gwn
                else fold (\<lambda>tri g. g + triangle_fgwn (face_negate fside) pt tri)
                       (face_tess (im bs) f) gwn)
       [0..<totface (im bs)] 0
     / (pi * 4)"

definition point_is_inside_side :: "BoolState \<Rightarrow> int \<Rightarrow> vec3 \<Rightarrow> bool" where
  "point_is_inside_side bs side pt = (\<bar>generalized_winding_number bs side pt\<bar> \<ge> 0.5)"

text \<open>
  The boolean modes that \<open>do_boolean_op\<close> switches on. \<open>BM_mesh_boolean\<close> calls it
  only for a mode other than "none" (\<open>-1\<close>), which is \<open>None\<close> of the option type there.
\<close>

datatype boolean_mode = BMESH_BOOLEAN_ISECT | BMESH_BOOLEAN_UNION | BMESH_BOOLEAN_DIFFERENCE

text \<open>
  The decision of \<open>do_boolean_op\<close> for one group with first face \<open>f\<close>: \<open>None\<close> when the
  group is skipped (\<open>fside == 0\<close>), otherwise the pair \<open>(do_remove, do_flip)\<close>.
\<close>

definition both_sides_flag :: "int \<Rightarrow> bool" where
  "both_sides_flag fside = ((fside AND (SIDE_A AND SIDE_B)) \<noteq> 0)"

definition opp_normals_flag :: "int \<Rightarrow> bool" where
  "opp_normals_flag fside = ((fside AND BOTH_SIDES_OPP_NORMALS) \<noteq> 0)"

definition boolean_group_action ::
  "BoolState \<Rightarrow> boolean_mode \<Rightarrow> nat \<Rightarrow> (bool \<times> bool) option" where
  "boolean_group_action bs mode f =
     (let fside = face_side_at bs f;
          both_sides = both_sides_flag fside;
          opp_normals = opp_normals_flag fside
      in if fside = 0 then None
         else
           (let otherside = fside XOR (SIDE_A OR SIDE_B)
            in if both_sides
               then Some (mode = BMESH_BOOLEAN_UNION \<and> opp_normals,
                          mode = BMESH_BOOLEAN_DIFFERENCE \<and> opp_normals
                            \<and> (fside OR SIDE_A) \<noteq> 0)
               else
                 (let inside = point_is_inside_side bs otherside (point_in_face (im bs) f)
                  in case mode of
                       BMESH_BOOLEAN_ISECT \<Rightarrow> Some (\<not> inside, False)
                     | BMESH_BOOLEAN_UNION \<Rightarrow> Some (inside, False)
                     | BMESH_BOOLEAN_DIFFERENCE \<Rightarrow>
                         Some (if (fside AND SIDE_A) \<noteq> 0 then inside else \<not> inside,
                               (fside AND SIDE_B) \<noteq> 0))))"

text \<open>
  The rest of the loop body: every face of the group is marked for deletion, or else
  entered in the flip set. A group is the list of its faces, the first one being the
  representative; an empty list has no face to act on.
\<close>

definition do_boolean_group ::
  "BoolState \<Rightarrow> boolean_mode \<Rightarrow> nat list \<Rightarrow> MeshChange \<Rightarrow> MeshChange" where
  "do_boolean_group bs mode grp change =
     (case grp of
        [] \<Rightarrow> change
      | f # _ \<Rightarrow>
          (case boolean_group_action bs mode f of
             None \<Rightarrow> change
           | Some (do_remove, do_flip) \<Rightarrow>
               if do_remove \<or> do_flip
               then fold (\<lambda>g ch.
                            if do_remove
                            then ch\<lparr>delete := meshdelete_add_face (delete ch) (int g)\<rparr>
                            else if do_flip
                            then ch\<lparr>face_flip := add_to_intset (face_flip ch) (int g)\<rparr>
                            else ch)
                      grp change
               else change))"

text \<open>
  \<open>do_boolean_op\<close> up to the point where the change is applied: the groups come from
  \<open>imesh_calc_face_groups\<close>, the element counts from the host mesh.
\<close>

definition do_boolean_op_change ::
  "BoolState \<Rightarrow> boolean_mode \<Rightarrow> nat list list \<Rightarrow> MeshChange" where
  "do_boolean_op_change bs mode groups =
     fold (do_boolean_group bs mode) groups
       ((init_meshchange (totvert (im bs)) (totedge (im bs)) (totface (im bs)))
          \<lparr>use_face_kill_loose := True\<rparr>)"

text \<open>A mesh without elements.\<close>

definition empty_mesh :: IMesh where
  "empty_mesh =
     \<lparr>totvert = 0, totedge = 0, totface = 0,
      face_tess = (\<lambda>f. []),
      point_in_face = (\<lambda>f. (0, 0, 0))\<rparr>"

text \<open>
  A one-face mesh for concrete evaluation: the triangle with corners on the three
  coordinate axes at distance 1, and its centroid as the point inside the face.
\<close>

definition single_triangle_mesh :: IMesh where
  "single_triangle_mesh =
     \<lparr>totvert = 3, totedge = 3, totface = 1,
      face_tess = (\<lambda>f. [((1, 0, 0), (0, 1, 0), (0, 0, 1))]),
      point_in_face = (\<lambda>f. (1 / 3, 1 / 3, 1 / 3))\<rparr>"

section \<open>Parts and part sets\<close>

text \<open>
  A plane is the 4-vector of its unit normal and signed offset. \<open>canonicalize_plane\<close>
  picks one of its two representations.
\<close>

type_synonym plane4 = "real \<times> real \<times> real \<times> real"

fun canonicalize_plane :: "plane4 \<Rightarrow> plane4" where
  "canonicalize_plane (p0, p1, p2, p3) =
     (let do_negate =
            (if p3 \<noteq> 0 then p3 > 0
             else if p2 \<noteq> 0 then p2 > 0
             else if p1 \<noteq> 0 then p1 > 0
             else p0 > 0)
      in if do_negate then (- p0, - p1, - p2, - p3) else (p0, p1, p2, p3))"

text \<open>The coplanarity test of the part-pair intersector.\<close>

fun planes_are_coplanar :: "plane4 \<Rightarrow> plane4 \<Rightarrow> real \<Rightarrow> bool" where
  "planes_are_coplanar (a0, a1, a2, a3) (b0, b1, b2, b3) e =
     (let norms_dot = dot_v3v3_db (a0, a1, a2) (b0, b1, b2)
      in if norms_dot > 0
         then \<bar>norms_dot - 1\<bar> \<le> e \<and> \<bar>a3 - b3\<bar> \<le> e
         else \<bar>norms_dot + 1\<bar> \<le> e \<and> \<bar>a3 + b3\<bar> \<le> e)"

text \<open>
  The coplanarity predicate in the words of the specification, for comparison with the
  source: \<open>|n1 . n2| \<ge> 1 - eps\<close> and \<open>|d1 - sign(n1 . n2) d2| \<le> eps\<close>.
\<close>

fun spec_coplanar :: "plane4 \<Rightarrow> plane4 \<Rightarrow> real \<Rightarrow> bool" where
  "spec_coplanar (a0, a1, a2, a3) (b0, b1, b2, b3) e =
     (let n1n2 = a0 * b0 + a1 * b1 + a2 * b2
      in \<bar>n1n2\<bar> \<ge> 1 - e \<and> \<bar>a3 - sgn n1n2 * b3\<bar> \<le> e)"

text \<open>
  Modelled from the spec: the 4-D k-d tree (\<open>BLI_kdtree.h\<close>) lives outside the files
  modelled here. The spec asks of it a "range search by radius with callback"; the tree is the
  list of inserted (index, point) pairs, and the search hands every pair within the
  radius (compared on squared distances) to the callback, which threads its user data.
  The order of the visits does not matter to \<open>find_coplanar_cb\<close>, which keeps a minimum.
\<close>

type_synonym KDTree_4d = "(nat \<times> plane4) list"

definition BLI_kdtree_4d_insert :: "KDTree_4d \<Rightarrow> nat \<Rightarrow> plane4 \<Rightarrow> KDTree_4d" where
  "BLI_kdtree_4d_insert tree index pco = tree @ [(index, pco)]"

fun len_squared_v4v4 :: "plane4 \<Rightarrow> plane4 \<Rightarrow> real" where
  "len_squared_v4v4 (a0, a1, a2, a3) (b0, b1, b2, b3) =
     (a0 - b0)\<^sup>2 + (a1 - b1)\<^sup>2 + (a2 - b2)\<^sup>2 + (a3 - b3)\<^sup>2"

definition BLI_kdtree_4d_range_search_cb ::
  "KDTree_4d \<Rightarrow> plane4 \<Rightarrow> real \<Rightarrow> ('d \<Rightarrow> nat \<Rightarrow> plane4 \<Rightarrow> 'd) \<Rightarrow> 'd \<Rightarrow> 'd" where
  "BLI_kdtree_4d_range_search_cb tree pco rng search_cb user_data =
     fold (\<lambda>(index, node_co) d.
             if len_squared_v4v4 node_co pco \<le> rng * rng then search_cb d index node_co
             else d)
       tree user_data"

text \<open>
  The user data of the callback. \<open>face_part\<close> holds for each face the part it was
  assigned to, as the position of the part in the part set, or \<open>None\<close> for \<open>NULL\<close>;
  the field \<open>eps\<close> is called \<open>cb_eps\<close> here. The test of the callback is
  \<open>find_coplanar_match\<close>; its arithmetic is single precision in the source and exact here.
\<close>

record FindCoplanarCBData =
  near_f_with_part :: int
  cb_eps :: real
  test_plane :: plane4
  face_part :: "nat option list"

definition M_2_PI :: real where
  "M_2_PI = 2 / pi"

fun find_coplanar_match :: "real \<Rightarrow> plane4 \<Rightarrow> plane4 \<Rightarrow> bool" where
  "find_coplanar_match e (t0, t1, t2, t3) (c0, c1, c2, c3) =
     (\<bar>t3 - c3\<bar> \<le> e \<and> \<bar>dot_v3v3_db (t0, t1, t2) (c0, c1, c2) - 1\<bar> \<le> e * M_2_PI)"

definition find_coplanar_cb :: "FindCoplanarCBData \<Rightarrow> nat \<Rightarrow> plane4 \<Rightarrow> FindCoplanarCBData" where
  "find_coplanar_cb cb_data index pco =
     (if face_part cb_data ! index \<noteq> None
      then if find_coplanar_match (cb_eps cb_data) (test_plane cb_data) pco
           then if near_f_with_part cb_data = - 1 \<or> int index < near_f_with_part cb_data
                then cb_data\<lparr>near_f_with_part := int index\<rparr>
                else cb_data
           else cb_data
      else cb_data)"

text \<open>
  \<open>MeshPart\<close> without its bounding box (filled in afterwards by
  \<open>calc_partset_bb_eps\<close>; no property below reads it). The lists are the linked lists
  \<open>verts\<close>, \<open>edges\<close> and \<open>faces\<close> of the part.
\<close>

record MeshPart =
  plane :: plane4
  part_verts :: "int list"
  part_edges :: "int list"
  part_faces :: "int list"

definition add_face_to_part :: "MeshPart \<Rightarrow> int \<Rightarrow> MeshPart" where
  "add_face_to_part part f = part\<lparr>part_faces := f # part_faces part\<rparr>"

text \<open>
  The body of the second loop of \<open>find_coplanar_parts\<close> for one face \<open>f\<close>: the range
  search for the lowest candidate face \<open>near_f\<close>, then a new part or the part of
  \<open>near_f\<close>. \<open>face_plane\<close> is what \<open>imesh_get_face_plane\<close> yields. The callback
  only ever reports a face that has a part, so the branch for a \<open>near_f\<close> without one
  (a null pointer in the source) is never taken.
\<close>

definition find_near_f :: "KDTree_4d \<Rightarrow> real \<Rightarrow> nat option list \<Rightarrow> plane4 \<Rightarrow> int" where
  "find_near_f tree feps fpart pl =
     near_f_with_part
       (BLI_kdtree_4d_range_search_cb tree pl (feps * 10) find_coplanar_cb
          \<lparr>near_f_with_part = - 1, cb_eps = feps, test_plane = pl, face_part = fpart\<rparr>)"

definition find_coplanar_step ::
  "(nat \<Rightarrow> plane4) \<Rightarrow> KDTree_4d \<Rightarrow> real \<Rightarrow> nat
     \<Rightarrow> MeshPart list \<times> nat option list \<Rightarrow> MeshPart list \<times> nat option list" where
  "find_coplanar_step face_plane tree feps f st =
     (case st of (partset, fpart) \<Rightarrow>
        let pl = canonicalize_plane (face_plane f);
            near_f = find_near_f tree feps fpart pl
        in if near_f = - 1
           then (partset @ [\<lparr>plane = pl, part_verts = [], part_edges = [], part_faces = [int f]\<rparr>],
                 fpart[f := Some (length partset)])
           else (case fpart ! nat near_f of
                   None \<Rightarrow> (partset, fpart)
                 | Some p \<Rightarrow> (partset[p := add_face_to_part (partset ! p) (int f)],
                              fpart[f := Some p])))"

definition find_coplanar_parts ::
  "BoolState \<Rightarrow> (nat \<Rightarrow> plane4) \<Rightarrow> int \<Rightarrow> MeshPart list" where
  "find_coplanar_parts bs face_plane sides =
     (let im_nf = totface (im bs);
          side_faces = filter (\<lambda>f. (face_side_at bs f AND sides) \<noteq> 0) [0..<im_nf];
          tree = fold (\<lambda>f t. BLI_kdtree_4d_insert t f (canonicalize_plane (face_plane f)))
                   side_faces [];
          feps = eps bs
      in fst (fold (find_coplanar_step face_plane tree feps) side_faces
                ([], replicate im_nf None)))"

text \<open>
  The candidates of a face with canonical plane \<open>pl\<close>: the faces in the tree within the
  search radius \<open>10 eps\<close> that have a part already and pass the test of the callback.
\<close>

definition near_entry :: "real \<Rightarrow> nat option list \<Rightarrow> plane4 \<Rightarrow> nat \<Rightarrow> plane4 \<Rightarrow> bool" where
  "near_entry feps fpart pl g c \<longleftrightarrow>
     len_squared_v4v4 c pl \<le> (feps * 10) * (feps * 10)
       \<and> fpart ! g \<noteq> None \<and> find_coplanar_match feps pl c"

definition near_candidates :: "KDTree_4d \<Rightarrow> real \<Rightarrow> nat option list \<Rightarrow> plane4 \<Rightarrow> nat set" where
  "near_candidates tree feps fpart pl = {g. \<exists>c. (g, c) \<in> set tree \<and> near_entry feps fpart pl g c}"

text \<open>Two side-A faces for concrete evaluation, their planes 22.6 degrees apart.\<close>

definition two_plane_faces :: "nat \<Rightarrow> plane4" where
  "two_plane_faces f = (if f = 0 then (1, 0, 0, - 1) else (12 / 13, 5 / 13, 0, - 1))"

definition two_face_state :: BoolState where
  "two_face_state =
     \<lparr>im = \<lparr>totvert = 6, totedge = 6, totface = 2, face_tess = (\<lambda>f. []),
             point_in_face = (\<lambda>f. (0, 0, 0))\<rparr>,
      eps = 1 / 10, face_side = [1, 1]\<rparr>"

section \<open>Non-coplanar part-pair intersection\<close>

text \<open>
  Staging a vertex. \<open>meshadd_add_vert\<close> scans the staged vertices for one within
  \<open>eps\<close> in every coordinate when \<open>checkdup\<close> is set, and appends otherwise;
  \<open>meshadd_add_vert_db\<close> first narrows the coordinates to single precision, by the
  rounding function \<open>fl\<close>.
\<close>

definition meshadd_totvert :: "MeshAdd \<Rightarrow> int" where
  "meshadd_totvert meshadd = int (length (verts meshadd))"

fun compare_v3v3 :: "vec3 \<Rightarrow> vec3 \<Rightarrow> real \<Rightarrow> bool" where
  "compare_v3v3 (a0, a1, a2) (b0, b1, b2) limit =
     (\<bar>a0 - b0\<bar> \<le> limit \<and> \<bar>a1 - b1\<bar> \<le> limit \<and> \<bar>a2 - b2\<bar> \<le> limit)"

fun meshadd_find_dup :: "NewVert list \<Rightarrow> vec3 \<Rightarrow> real \<Rightarrow> nat option" where
  "meshadd_find_dup [] c feps = None"
| "meshadd_find_dup (newv # rest) c feps =
     (if compare_v3v3 (co newv) c feps then Some 0
      else map_option Suc (meshadd_find_dup rest c feps))"

definition meshadd_add_vert ::
  "real \<Rightarrow> MeshAdd \<Rightarrow> vec3 \<Rightarrow> int \<Rightarrow> bool \<Rightarrow> MeshAdd \<times> int" where
  "meshadd_add_vert feps meshadd c eg checkdup =
     (case (if checkdup then meshadd_find_dup (verts meshadd) c feps else None) of
        Some i \<Rightarrow> (meshadd, vindex_start meshadd + int i)
      | None \<Rightarrow>
          (let newv = \<lparr>co = c, v_example = eg\<rparr>;
               meshadd' = meshadd\<lparr>verts := verts meshadd @ [newv]\<rparr>
           in (meshadd', vindex_start meshadd' + meshadd_totvert meshadd' - 1)))"

fun copy_v3fl_v3db :: "(real \<Rightarrow> real) \<Rightarrow> vec3 \<Rightarrow> vec3" where
  "copy_v3fl_v3db fl (c0, c1, c2) = (fl c0, fl c1, fl c2)"

definition meshadd_add_vert_db ::
  "(real \<Rightarrow> real) \<Rightarrow> real \<Rightarrow> MeshAdd \<Rightarrow> vec3 \<Rightarrow> int \<Rightarrow> bool \<Rightarrow> MeshAdd \<times> int" where
  "meshadd_add_vert_db fl e meshadd c eg checkdup =
     meshadd_add_vert (fl e) meshadd (copy_v3fl_v3db fl c) eg checkdup"

text \<open>
  \<open>PartPartIntersect\<close> (its lists are called \<open>ppi_verts\<close>, \<open>ppi_edges\<close> and
  \<open>ppi_faces\<close> here) and the interval of a face on the line of intersection.
\<close>

record PartPartIntersect =
  ppi_verts :: "int list"
  ppi_edges :: "int list"
  ppi_faces :: "int list"
  a_index :: int
  b_index :: int

definition add_vert_to_partpartintersect :: "PartPartIntersect \<Rightarrow> int \<Rightarrow> PartPartIntersect" where
  "add_vert_to_partpartintersect ppi v = ppi\<lparr>ppi_verts := ppi_verts ppi @ [v]\<rparr>"

definition add_edge_to_partpartintersect :: "PartPartIntersect \<Rightarrow> int \<Rightarrow> PartPartIntersect" where
  "add_edge_to_partpartintersect ppi e = ppi\<lparr>ppi_edges := ppi_edges ppi @ [e]\<rparr>"

record IntervalInfo =
  fac :: "real \<times> real"
  iv_co :: "vec3 \<times> vec3"

text \<open>
  What the intersector takes from outside this file, each a function of its arguments:
  the rounding to single precision, the plane-plane, point-line and line-line routines
  of the math library (the last with its result code and its two closest points), the
  accessors of the mesh abstraction including the snap lookup \<open>imesh_find_co_db\<close>, and
  \<open>find_face_line_intersects\<close> of this file, which yields the interval list of a face.
\<close>

record InterEnv =
  float_of_double :: "real \<Rightarrow> real"
  isect_plane_plane_v3_db :: "plane4 \<Rightarrow> plane4 \<Rightarrow> (vec3 \<times> vec3) option"
  closest_to_line_v3_db :: "vec3 \<Rightarrow> vec3 \<Rightarrow> vec3 \<Rightarrow> vec3"
  isect_line_line_epsilon_v3_db :: "vec3 \<Rightarrow> vec3 \<Rightarrow> vec3 \<Rightarrow> vec3 \<Rightarrow> real \<Rightarrow> int \<times> vec3 \<times> vec3"
  imesh_get_vert_co_db :: "int \<Rightarrow> vec3"
  imesh_get_edge_cos_db :: "int \<Rightarrow> vec3 \<times> vec3"
  imesh_get_edge_verts :: "int \<Rightarrow> int \<times> int"
  imesh_find_co_db :: "vec3 \<Rightarrow> real \<Rightarrow> int"
  imesh_find_edge :: "int \<Rightarrow> int \<Rightarrow> int"
  find_face_line_intersects :: "int \<Rightarrow> plane4 \<Rightarrow> vec3 \<Rightarrow> vec3 \<Rightarrow> IntervalInfo list"

text \<open>
  The variables of \<open>non_coplanar_part_part_intersect\<close> that outlive one loop iteration:
  the record under construction, the change buffer, and the local array \<open>co\<close>, which
  the loop over loose vertices and the interval code write and the loop over loose
  edges reads.
\<close>

record NCState =
  nc_ppi :: PartPartIntersect
  nc_change :: MeshChange
  nc_co :: vec3

text \<open>The body of the loop over the loose vertices of a part.\<close>

definition loose_vert_step :: "InterEnv \<Rightarrow> real \<Rightarrow> vec3 \<Rightarrow> vec3 \<Rightarrow> int \<Rightarrow> NCState \<Rightarrow> NCState" where
  "loose_vert_step env e line_co1 line_co2 v st =
     (let c = imesh_get_vert_co_db env v;
          co_close = closest_to_line_v3_db env c line_co1 line_co2;
          st1 = st\<lparr>nc_co := c\<rparr>
      in if compare_v3v3_db c co_close e
         then st1\<lparr>nc_ppi := add_vert_to_partpartintersect (nc_ppi st1) v\<rparr>
         else st1)"

text \<open>
  The body of the loop over the loose edges of a part. When neither end is on the line
  and the closest points qualify, the mesh is searched at \<open>co_close1\<close> and, failing
  that, a vertex is staged from the array \<open>co\<close>.
\<close>

definition stage_vert :: "InterEnv \<Rightarrow> real \<Rightarrow> vec3 \<Rightarrow> NCState \<Rightarrow> NCState \<times> int" where
  "stage_vert env e c st =
     (let (meshadd', v) = meshadd_add_vert_db (float_of_double env) e (add (nc_change st)) c (- 1) True
      in (st\<lparr>nc_change := (nc_change st)\<lparr>add := meshadd'\<rparr>\<rparr>, v))"

definition loose_edge_step :: "InterEnv \<Rightarrow> real \<Rightarrow> vec3 \<Rightarrow> vec3 \<Rightarrow> int \<Rightarrow> NCState \<Rightarrow> NCState" where
  "loose_edge_step env e line_co1 line_co2 ed st =
     (let (co1, co2) = imesh_get_edge_cos_db env ed;
          co_close1 = closest_to_line_v3_db env co1 line_co1 line_co2;
          co_close2 = closest_to_line_v3_db env co2 line_co1 line_co2;
          on1 = compare_v3v3_db co1 co_close1 e;
          on2 = compare_v3v3_db co2 co_close2 e
      in if on1 \<or> on2
         then if on1 \<and> on2
              then st\<lparr>nc_ppi := add_edge_to_partpartintersect (nc_ppi st) ed\<rparr>
              else (let (ev1, ev2) = imesh_get_edge_verts env ed
                    in st\<lparr>nc_ppi := add_vert_to_partpartintersect (nc_ppi st)
                                         (if on1 then ev1 else ev2)\<rparr>)
         else
           (let (is, co_close1, co_close2) =
                  isect_line_line_epsilon_v3_db env line_co1 line_co2 co1 co2 e
            in if is > 0 \<and> (is = 1 \<or> compare_v3v3_db co_close1 co_close2 e)
               then (let elen_squared = len_squared_v3v3_db co1 co2 + e * e
                     in if len_squared_v3v3_db co_close1 co1 \<le> elen_squared
                           \<and> len_squared_v3v3_db co_close1 co2 \<le> elen_squared
                        then (let v = imesh_find_co_db env co_close1 e;
                                  (st1, v') = (if v = - 1 then stage_vert env e (nc_co st) st
                                               else (st, v))
                              in st1\<lparr>nc_ppi := add_vert_to_partpartintersect (nc_ppi st1) v'\<rparr>)
                        else st)
               else st))"

text \<open>
  Intersecting the single interval of an A-face with the single interval of a B-face:
  "find a mesh vertex at the coordinate, else stage one" for each end, then a vertex or
  an edge for the record.
\<close>

definition snap_or_stage :: "InterEnv \<Rightarrow> real \<Rightarrow> vec3 \<Rightarrow> NCState \<Rightarrow> NCState \<times> int" where
  "snap_or_stage env e c st =
     (let v = imesh_find_co_db env c e
      in if v = - 1 then stage_vert env e c st else (st, v))"

definition single_interval_intersect ::
  "InterEnv \<Rightarrow> real \<Rightarrow> IntervalInfo \<Rightarrow> IntervalInfo \<Rightarrow> NCState \<Rightarrow> NCState" where
  "single_interval_intersect env e iinfoa iinfob st =
     (let faca1 = fst (fac iinfoa); faca2 = snd (fac iinfoa);
          facb1 = fst (fac iinfob); facb2 = snd (fac iinfob);
          facstart = max faca1 facb1;
          facend = min faca2 facb2
      in if facend < facstart - e then st
         else
           (let c = (if facstart = faca1 then fst (iv_co iinfoa) else fst (iv_co iinfob));
                c2 = (if facend = faca2 then snd (iv_co iinfoa) else snd (iv_co iinfob));
                st0 = st\<lparr>nc_co := c\<rparr>
            in if compare_v3v3_db c c2 e
               then (let (st1, v) = snap_or_stage env e c st0
                     in st1\<lparr>nc_ppi := add_vert_to_partpartintersect (nc_ppi st1) v\<rparr>)
               else
                 (let (st1, pv1) = snap_or_stage env e c st0;
                      (st2, pv2) = snap_or_stage env e c2 st1
                  in if pv1 = pv2
                     then st2\<lparr>nc_ppi := add_vert_to_partpartintersect (nc_ppi st2) pv1\<rparr>
                     else
                       (let ed = imesh_find_edge env pv1 pv2;
                            (meshadd', ed') =
                               (if ed = - 1
                                then meshadd_add_edge (add (nc_change st2)) pv1 pv2 (- 1) True
                                else (add (nc_change st2), ed))
                        in st2\<lparr>nc_ppi := add_edge_to_partpartintersect (nc_ppi st2) ed',
                               nc_change := (nc_change st2)
                                  \<lparr>add := meshadd',
                                   intersection_edges :=
                                     add_to_intset (intersection_edges (nc_change st2)) ed'\<rparr>\<rparr>))))"

text \<open>
  The pair loop handles only lists of exactly one interval each; the function as a
  whole returns no record when the planes do not meet. \<open>co_init\<close> is whatever the
  uninitialised array \<open>co\<close> holds on entry.
\<close>

definition interval_pair_step ::
  "InterEnv \<Rightarrow> real \<Rightarrow> IntervalInfo list \<Rightarrow> IntervalInfo list \<Rightarrow> NCState \<Rightarrow> NCState" where
  "interval_pair_step env e lna lnb st =
     (case (lna, lnb) of
        ([iinfoa], [iinfob]) \<Rightarrow> single_interval_intersect env e iinfoa iinfob st
      | _ \<Rightarrow> st)"

definition non_coplanar_part_part_intersect ::
  "InterEnv \<Rightarrow> real \<Rightarrow> MeshPart \<Rightarrow> int \<Rightarrow> MeshPart \<Rightarrow> int \<Rightarrow> MeshChange \<Rightarrow> vec3
     \<Rightarrow> PartPartIntersect option \<times> MeshChange" where
  "non_coplanar_part_part_intersect env e part_a ai part_b bi change co_init =
     (case isect_plane_plane_v3_db env (plane part_a) (plane part_b) of
        None \<Rightarrow> (None, change)
      | Some (line_co1, line_dir) \<Rightarrow>
          (let line_co2 = add_v3_v3v3_db line_co1 line_dir;
               ppi = \<lparr>ppi_verts = [], ppi_edges = [], ppi_faces = [], a_index = ai, b_index = bi\<rparr>;
               st0 = \<lparr>nc_ppi = ppi, nc_change = change, nc_co = co_init\<rparr>;
               st1 = fold (loose_vert_step env e line_co1 line_co2)
                       (part_verts part_a @ part_verts part_b) st0;
               st2 = fold (loose_edge_step env e line_co1 line_co2)
                       (part_edges part_a @ part_edges part_b) st1;
               intervals_a = map (\<lambda>f. find_face_line_intersects env f (plane part_b)
                                         line_co1 line_co2) (part_faces part_a);
               intervals_b = map (\<lambda>f. find_face_line_intersects env f (plane part_a)
                                         line_co1 line_co2) (part_faces part_b);
               st3 = fold (\<lambda>lna st.
                             if lna = [] then st
                             else fold (\<lambda>lnb st'.
                                          if lnb = [] then st'
                                          else interval_pair_step env e lna lnb st')
                                    intervals_b st)
                       intervals_a st2
           in (Some (nc_ppi st3), nc_change st3)))"

text \<open>
  Concrete collaborators for evaluation. \<open>closest_to_line\<close> is the orthogonal
  projection of a point on the line through two points. \<open>loose_edge_env\<close> describes a
  mesh of a loose vertex 0 at (7, 7, 7) and a loose edge 0 from (1, -1, 0) to (1, 1, 0),
  cut by the x-axis as line of intersection, which the edge crosses at (1, 0, 0); no
  mesh vertex is near any query point and the mesh has no edge between queried ends.
  \<open>origin_vertex_env\<close> describes a mesh whose only vertex 0 sits at the origin.
\<close>

fun closest_to_line :: "vec3 \<Rightarrow> vec3 \<Rightarrow> vec3 \<Rightarrow> vec3" where
  "closest_to_line p l1 (m0, m1, m2) =
     (case l1 of (k0, k1, k2) \<Rightarrow>
        let u = sub_v3_v3v3_db (m0, m1, m2) l1;
            h = sub_v3_v3v3_db p l1;
            lambda = dot_v3v3_db u h / dot_v3v3_db u u
        in (k0 + lambda * (m0 - k0), k1 + lambda * (m1 - k1), k2 + lambda * (m2 - k2)))"

definition loose_edge_env :: InterEnv where
  "loose_edge_env =
     \<lparr>float_of_double = (\<lambda>x. x),
      isect_plane_plane_v3_db = (\<lambda>pa pb. Some ((0, 0, 0), (1, 0, 0))),
      closest_to_line_v3_db = closest_to_line,
      isect_line_line_epsilon_v3_db = (\<lambda>l1 l2 c1 c2 e. (1, (1, 0, 0), (1, 0, 0))),
      imesh_get_vert_co_db = (\<lambda>v. if v = 0 then (7, 7, 7) else if v = 1 then (1, - 1, 0)
                                  else (1, 1, 0)),
      imesh_get_edge_cos_db = (\<lambda>ed. ((1, - 1, 0), (1, 1, 0))),
      imesh_get_edge_verts = (\<lambda>ed. (1, 2)),
      imesh_find_co_db = (\<lambda>c e. - 1),
      imesh_find_edge = (\<lambda>a b. - 1),
      find_face_line_intersects = (\<lambda>f pl l1 l2. [])\<rparr>"

definition origin_vertex_env :: InterEnv where
  "origin_vertex_env =
     \<lparr>float_of_double = (\<lambda>x. x),
      isect_plane_plane_v3_db = (\<lambda>pa pb. Some ((0, 0, 0), (1, 0, 0))),
      closest_to_line_v3_db = closest_to_line,
      isect_line_line_epsilon_v3_db = (\<lambda>l1 l2 c1 c2 e. (0, (0, 0, 0), (0, 0, 0))),
      imesh_get_vert_co_db = (\<lambda>v. (0, 0, 0)),
      imesh_get_edge_cos_db = (\<lambda>ed. ((0, 0, 0), (0, 0, 0))),
      imesh_get_edge_verts = (\<lambda>ed. (- 1, - 1)),
      imesh_find_co_db = (\<lambda>c e. if len_squared_v3v3_db c (0, 0, 0) \<le> e * e then 0 else - 1),
      imesh_find_edge = (\<lambda>a b. - 1),
      find_face_line_intersects = (\<lambda>f pl l1 l2. [])\<rparr>"

definition empty_ppi :: PartPartIntersect where
  "empty_ppi = \<lparr>ppi_verts = [], ppi_edges = [], ppi_faces = [], a_index = 0, b_index = 0\<rparr>"

section \<open>Part-set pair intersection\<close>

text \<open>
  \<open>BVHTreeOverlap\<close> is the pair of leaf indices that the overlap query reports;
  \<open>bool_overlap_sort_fn\<close> is the comparison handed to \<open>qsort\<close>.
\<close>

record BVHTreeOverlap =
  indexA :: int
  indexB :: int

definition bool_overlap_sort_fn :: "BVHTreeOverlap \<Rightarrow> BVHTreeOverlap \<Rightarrow> int" where
  "bool_overlap_sort_fn o1 o2 =
     (if indexA o1 < indexA o2 then - 1
      else if indexA o1 > indexA o2 then 1
      else if indexB o1 < indexB o2 then - 1
      else if indexB o1 > indexB o2 then 1
      else 0)"

text \<open>
  The C library's \<open>qsort\<close> promises a permutation of its input that is ordered by the
  comparison function, and nothing about equal elements. It is modelled by insertion
  sort; \<open>sorted_by\<close> is the contract any implementation meets.
\<close>

fun qsort_insert :: "('a \<Rightarrow> 'a \<Rightarrow> int) \<Rightarrow> 'a \<Rightarrow> 'a list \<Rightarrow> 'a list" where
  "qsort_insert cmp x [] = [x]"
| "qsort_insert cmp x (y # ys) =
     (if cmp x y \<le> 0 then x # y # ys else y # qsort_insert cmp x ys)"

definition qsort :: "('a \<Rightarrow> 'a \<Rightarrow> int) \<Rightarrow> 'a list \<Rightarrow> 'a list" where
  "qsort cmp xs = foldr (qsort_insert cmp) xs []"

definition sorted_by :: "('a \<Rightarrow> 'a \<Rightarrow> int) \<Rightarrow> 'a list \<Rightarrow> bool" where
  "sorted_by cmp xs = sorted_wrt (\<lambda>a b. cmp a b \<le> 0) xs"

text \<open>
  The collaborators of \<open>intersect_partset_pair\<close>, each a deterministic function of
  its arguments: \<open>part_part_intersect\<close> on two parts with their positions (it may stage
  geometry in the change and may return no record), and
  \<open>self_intersect_part_and_ppis\<close> on a part with its list of records (the record it
  returns is not used by the caller).
\<close>

record PartsetOps =
  part_part_intersect ::
    "MeshPart \<Rightarrow> int \<Rightarrow> MeshPart \<Rightarrow> int \<Rightarrow> MeshChange \<Rightarrow> PartPartIntersect option \<times> MeshChange"
  self_intersect_part_and_ppis ::
    "MeshPart \<Rightarrow> PartPartIntersect list \<Rightarrow> MeshChange \<Rightarrow> MeshChange"

text \<open>
  The local state of the overlap loop: the two arrays of record lists, the bitmap
  \<open>bpart_coplanar_with_apart\<close>, and the staged change.
\<close>

record PairState =
  a_isects :: "PartPartIntersect list list"
  b_isects :: "PartPartIntersect list list"
  bpart_coplanar_with_apart :: "bool list"
  meshchange :: MeshChange

definition isects_append ::
  "PartPartIntersect list list \<Rightarrow> int \<Rightarrow> PartPartIntersect \<Rightarrow> PartPartIntersect list list"
  where
  "isects_append arr i isect = arr[nat i := arr ! nat i @ [isect]]"

text \<open>
  One iteration of the loop over the sorted overlaps. A part set is the list of its
  parts; \<open>same_partsets\<close> says that both arguments are one and the same part set.
\<close>

definition overlap_step ::
  "PartsetOps \<Rightarrow> real \<Rightarrow> MeshPart list \<Rightarrow> MeshPart list \<Rightarrow> bool \<Rightarrow> BVHTreeOverlap
     \<Rightarrow> PairState \<Rightarrow> PairState" where
  "overlap_step ops e a_partset b_partset same_partsets ov st =
     (let a_index = indexA ov; b_index = indexB ov;
          part_a = a_partset ! nat a_index;
          part_b = b_partset ! nat b_index
      in if same_partsets \<and> b_index \<le> a_index then st
         else
           (let st1 = (if \<not> same_partsets \<and> planes_are_coplanar (plane part_a) (plane part_b) e
                       then st\<lparr>bpart_coplanar_with_apart :=
                                 (bpart_coplanar_with_apart st)[nat b_index := True]\<rparr>
                       else st);
                (isect, change') =
                   part_part_intersect ops part_a a_index part_b b_index (meshchange st1);
                st2 = st1\<lparr>meshchange := change'\<rparr>
            in case isect of
                 None \<Rightarrow> st2
               | Some ppi \<Rightarrow>
                   (let st3 = st2\<lparr>a_isects := isects_append (a_isects st2) a_index ppi,
                                   b_isects := isects_append (b_isects st2) b_index ppi\<rparr>
                    in if same_partsets
                       then st3\<lparr>a_isects := isects_append (a_isects st3) b_index ppi,
                                b_isects := isects_append (b_isects st3) a_index ppi\<rparr>
                       else st3)))"

text \<open>The two loops that self-intersect every part with its records.\<close>

definition self_intersect_all_a :: "PartsetOps \<Rightarrow> MeshPart list \<Rightarrow> PairState \<Rightarrow> MeshChange" where
  "self_intersect_all_a ops a_partset st =
     fold (\<lambda>a_index change.
             self_intersect_part_and_ppis ops (a_partset ! a_index) (a_isects st ! a_index) change)
       [0..<length a_partset] (meshchange st)"

definition self_intersect_all_b ::
  "PartsetOps \<Rightarrow> MeshPart list \<Rightarrow> PairState \<Rightarrow> MeshChange \<Rightarrow> MeshChange" where
  "self_intersect_all_b ops b_partset st change0 =
     fold (\<lambda>b_index change.
             if bpart_coplanar_with_apart st ! b_index then change
             else self_intersect_part_and_ppis ops (b_partset ! b_index) (b_isects st ! b_index)
                    change)
       [0..<length b_partset] change0"

text \<open>
  \<open>intersect_partset_pair\<close>, from the array \<open>overlap\<close> that the overlap query returned
  (the empty list when it returned \<open>NULL\<close>) to the staged change it leaves behind.
\<close>

definition intersect_partset_pair ::
  "PartsetOps \<Rightarrow> real \<Rightarrow> MeshPart list \<Rightarrow> MeshPart list \<Rightarrow> bool \<Rightarrow> BVHTreeOverlap list
     \<Rightarrow> MeshChange \<Rightarrow> MeshChange" where
  "intersect_partset_pair ops e a_partset b_partset same_partsets overlap change0 =
     (let st0 = \<lparr>a_isects = replicate (length a_partset) [],
                 b_isects = replicate (length b_partset) [],
                 bpart_coplanar_with_apart = replicate (length b_partset) False,
                 meshchange = change0\<rparr>;
          st = fold (overlap_step ops e a_partset b_partset same_partsets)
                 (qsort bool_overlap_sort_fn overlap) st0;
          change1 = self_intersect_all_a ops a_partset st
      in if \<not> same_partsets then self_intersect_all_b ops b_partset st change1
         else change1)"

section \<open>The entry point\<close>

text \<open>
  The parts of a boolean call that are kept abstract, each a function of what it
  reads: the plane of a face (\<open>imesh_get_face_plane\<close>), the overlap query on the
  bounding boxes of two part sets, the collaborators of \<open>intersect_partset_pair\<close>, the
  change applier, and the face groups of the host mesh.
\<close>

record BooleanOps =
  imesh_get_face_plane :: "BoolState \<Rightarrow> nat \<Rightarrow> plane4"
  BLI_bvhtree_overlap :: "MeshPart list \<Rightarrow> MeshPart list \<Rightarrow> BVHTreeOverlap list"
  partset_ops :: PartsetOps
  apply_meshchange_to_imesh :: "BoolState \<Rightarrow> MeshChange \<Rightarrow> BoolState"
  imesh_calc_face_groups :: "BoolState \<Rightarrow> nat list list"

definition do_boolean_op :: "BooleanOps \<Rightarrow> BoolState \<Rightarrow> boolean_mode \<Rightarrow> BoolState" where
  "do_boolean_op ops bs mode =
     apply_meshchange_to_imesh ops bs
       (do_boolean_op_change bs mode (imesh_calc_face_groups ops bs))"

text \<open>
  \<open>BM_mesh_boolean\<close>. \<open>test_fn\<close> maps a face index to \<open>-1\<close> (skip), \<open>0\<close> (side A) or
  anything else (side B); the table \<open>face_side\<close> starts zeroed. The result pairs the
  mesh the call leaves behind with the value the function returns.
\<close>

definition initial_face_side :: "(nat \<Rightarrow> int) \<Rightarrow> bool \<Rightarrow> nat \<Rightarrow> 8 word" where
  "initial_face_side test_fn use_self f =
     (if use_self then word_of_int (SIDE_A OR SIDE_B)
      else (let test_val = test_fn f
            in if test_val \<noteq> - 1
               then word_of_int (if test_val = 0 then SIDE_A else SIDE_B)
               else 0))"

definition BM_mesh_boolean ::
  "BooleanOps \<Rightarrow> IMesh \<Rightarrow> (nat \<Rightarrow> int) \<Rightarrow> bool \<Rightarrow> boolean_mode option \<Rightarrow> real
     \<Rightarrow> IMesh \<times> bool" where
  "BM_mesh_boolean ops bm test_fn use_self boolean_mode eps0 =
     (let bs = \<lparr>im = bm, eps = eps0,
                face_side = map (initial_face_side test_fn use_self) [0..<totface bm]\<rparr>;
          change0 = init_meshchange (totvert bm) (totedge bm) (totface bm);
          meshchange =
            (if use_self
             then (let all_parts = find_coplanar_parts bs (imesh_get_face_plane ops bs)
                                     (SIDE_A OR SIDE_B)
                   in intersect_partset_pair (partset_ops ops) (eps bs) all_parts all_parts True
                        (BLI_bvhtree_overlap ops all_parts all_parts) change0)
             else (let a_parts = find_coplanar_parts bs (imesh_get_face_plane ops bs) SIDE_A;
                       b_parts = find_coplanar_parts bs (imesh_get_face_plane ops bs) SIDE_B
                   in intersect_partset_pair (partset_ops ops) (eps bs) a_parts b_parts False
                        (BLI_bvhtree_overlap ops a_parts b_parts) change0));
          bs1 = apply_meshchange_to_imesh ops bs meshchange;
          bs2 = (case boolean_mode of
                   None \<Rightarrow> bs1
                 | Some mode \<Rightarrow> do_boolean_op ops bs1 mode)
      in (im bs2, True))"

text \<open>
  Collaborators for concrete evaluation: \<open>tracing_ops\<close> stages nothing but enters
  \<open>10 a + b\<close> in the intersection-edge set for every pair of parts \<open>(a, b)\<close> it is
  asked to intersect, so that the order of the calls shows in the change;
  \<open>idle_ops\<close> describes a call in which no part pair overlaps and the applier is
  handed an empty change.
\<close>

definition tracing_ops :: PartsetOps where
  "tracing_ops =
     \<lparr>part_part_intersect =
        (\<lambda>part_a ai part_b bi change.
           (None, change\<lparr>intersection_edges := (10 * ai + bi) # intersection_edges change\<rparr>)),
      self_intersect_part_and_ppis = (\<lambda>part ppis change. change)\<rparr>"

definition idle_ops :: BooleanOps where
  "idle_ops =
     \<lparr>imesh_get_face_plane = (\<lambda>bs f. (0, 0, 1, 0)),
      BLI_bvhtree_overlap = (\<lambda>a_parts b_parts. []),
      partset_ops = tracing_ops,
      apply_meshchange_to_imesh = (\<lambda>bs change. bs),
      imesh_calc_face_groups = (\<lambda>bs. [])\<rparr>"

section \<open>Properties of merge resolution\<close>

lemma find_in_intintmap_key: "find_in_intintmap m k = Some t \<Longrightarrow> k \<in> fst ` set m"
  by (induction m) (auto split: if_splits)

lemma merge_rel_Domain: "Domain (merge_rel m) \<subseteq> fst ` set m"
  by (auto simp: merge_rel_def dest: find_in_intintmap_key)

lemma resolve_merge_fuel_mono:
  "resolve_merge_fuel n v m = Some y \<Longrightarrow> n \<le> n' \<Longrightarrow> resolve_merge_fuel n' v m = Some y"
proof (induction n arbitrary: v n')
  case 0
  then show ?case
    by (cases n') (auto split: option.splits)
next
  case (Suc n)
  then obtain k where n': "n' = Suc k" and le: "n \<le> k"
    by (cases n') auto
  show ?case
  proof (cases "find_in_intintmap m v")
    case None
    with Suc.prems n' show ?thesis by simp
  next
    case (Some t)
    with Suc.prems have "resolve_merge_fuel n t m = Some y" by simp
    from Suc.IH [OF this le] Some n' show ?thesis by simp
  qed
qed

lemma resolve_merge_fuel_sound:
  "resolve_merge_fuel n v m = Some y \<Longrightarrow> resolve_merge v m = Some y"
proof (induction n arbitrary: v)
  case 0
  then show ?case
    by (subst resolve_merge.simps) (auto split: option.splits)
next
  case (Suc n)
  show ?case
  proof (cases "find_in_intintmap m v")
    case None
    with Suc.prems show ?thesis
      by (subst resolve_merge.simps) simp
  next
    case (Some t)
    with Suc.prems have "resolve_merge_fuel n t m = Some y" by simp
    from Suc.IH [OF this] Some show ?thesis
      by (subst resolve_merge.simps) simp
  qed
qed

lemma resolve_merge_fuel_fixed:
  "resolve_merge_fuel n v m = Some y \<Longrightarrow> find_in_intintmap m y = None"
  by (induction n arbitrary: v) (auto split: option.splits)

lemma resolve_merge_fuel_card:
  assumes "acyclic (merge_rel m)" and "finite S"
    and "\<And>k. (v, k) \<in> (merge_rel m)\<^sup>* \<Longrightarrow> k \<in> Domain (merge_rel m) \<Longrightarrow> k \<in> S"
  shows "\<exists>y. resolve_merge_fuel (card S) v m = Some y"
  using assms(2,3)
proof (induction "card S" arbitrary: S v)
  case 0
  then have S: "S = {}" by simp
  show ?case
  proof (cases "find_in_intintmap m v")
    case None
    then show ?thesis by (cases "card S") simp_all
  next
    case (Some t)
    then have "v \<in> Domain (merge_rel m)" by (auto simp: merge_rel_def)
    with "0.prems"(2) [of v] S show ?thesis by simp
  qed
next
  case (Suc n)
  show ?case
  proof (cases "find_in_intintmap m v")
    case None
    then show ?thesis by (cases "card S") simp_all
  next
    case (Some t)
    then have vt: "(v, t) \<in> merge_rel m" by (simp add: merge_rel_def)
    then have "v \<in> Domain (merge_rel m)" by auto
    with Suc.prems(2) [of v] have vS: "v \<in> S" by simp
    let ?S' = "S - {v}"
    have card': "n = card ?S'" using Suc.hyps(2) vS Suc.prems(1) by simp
    have fin': "finite ?S'" using Suc.prems(1) by simp
    have reach: "k \<in> ?S'" if tk: "(t, k) \<in> (merge_rel m)\<^sup>*"
      and kd: "k \<in> Domain (merge_rel m)" for k
    proof -
      from vt tk have "(v, k) \<in> (merge_rel m)\<^sup>*" by (rule converse_rtrancl_into_rtrancl)
      from this kd have "k \<in> S" by (rule Suc.prems(2))
      moreover have "k \<noteq> v"
      proof
        assume "k = v"
        with vt tk have "(v, v) \<in> (merge_rel m)\<^sup>+" by (simp add: rtrancl_into_trancl2)
        with assms(1) show False by (simp add: acyclic_def)
      qed
      ultimately show ?thesis by simp
    qed
    have "\<exists>y. resolve_merge_fuel (card ?S') t m = Some y"
      using card' fin' reach by (rule Suc.hyps(1))
    then obtain y where "resolve_merge_fuel n t m = Some y"
      using card' by auto
    with Some show ?thesis by (simp flip: Suc.hyps(2))
  qed
qed

lemma resolve_merge_acyclic_returns:
  assumes "acyclic_map m"
  shows "\<exists>y. resolve_merge_fuel (length m) v m = Some y \<and> resolve_merge v m = Some y
           \<and> find_in_intintmap m y = None"
proof -
  have ac: "acyclic (merge_rel m)" using assms by (simp add: acyclic_map_def)
  have "\<exists>y. resolve_merge_fuel (card (fst ` set m)) v m = Some y"
    by (rule resolve_merge_fuel_card [OF ac]) (use merge_rel_Domain in auto)
  then obtain y where y: "resolve_merge_fuel (card (fst ` set m)) v m = Some y" ..
  have "card (fst ` set m) \<le> length m"
    by (rule order_trans [OF card_image_le card_length]) simp
  with y have "resolve_merge_fuel (length m) v m = Some y"
    by (rule resolve_merge_fuel_mono)
  then show ?thesis
    using resolve_merge_fuel_sound resolve_merge_fuel_fixed by blast
qed

lemma merge_rel_functional:
  "(k, a) \<in> merge_rel m \<Longrightarrow> (k, b) \<in> merge_rel m \<Longrightarrow> a = b"
  by (simp add: merge_rel_def)

lemma resolve_merge_reaches_fixed_point:
  assumes "resolve_merge v m = Some y"
  shows "(v, y) \<in> (merge_rel m)\<^sup>* \<and> find_in_intintmap m y = None"
  using assms
proof (induction rule: resolve_merge.raw_induct [rotated, consumes 1])
  case (1 rm v m y)
  show ?case
  proof (cases "find_in_intintmap m v")
    case None
    with 1(2) show ?thesis by simp
  next
    case (Some t)
    with 1(2) have "rm t m = Some y" by simp
    from 1(1) [OF this] have "(t, y) \<in> (merge_rel m)\<^sup>*" and fp: "find_in_intintmap m y = None"
      by simp_all
    moreover have "(v, t) \<in> merge_rel m" using Some by (simp add: merge_rel_def)
    ultimately show ?thesis by (auto intro: converse_rtrancl_into_rtrancl)
  qed
qed

lemma chain_stays_before_cycle:
  assumes "(v, k) \<in> (merge_rel m)\<^sup>*" and "(v, c) \<in> (merge_rel m)\<^sup>*"
    and cyc: "(c, c) \<in> (merge_rel m)\<^sup>+"
  shows "(k, c) \<in> (merge_rel m)\<^sup>*"
  using assms(1)
proof (induction rule: rtrancl_induct)
  case base
  show ?case by (rule assms(2))
next
  case (step k k')
  have "(k, c) \<in> (merge_rel m)\<^sup>+"
  proof (cases "k = c")
    case True
    with cyc show ?thesis by simp
  next
    case False
    with step.IH show ?thesis by (metis rtranclD)
  qed
  then obtain k'' where "(k, k'') \<in> merge_rel m" and "(k'', c) \<in> (merge_rel m)\<^sup>*"
    by (metis tranclD)
  with step.hyps(2) show ?case
    using merge_rel_functional by blast
qed

lemma resolve_merge_cycle_never_returns:
  assumes "(v, c) \<in> (merge_rel m)\<^sup>*" and cyc: "(c, c) \<in> (merge_rel m)\<^sup>+"
  shows "resolve_merge v m = None"
proof (cases "resolve_merge v m")
  case None
  then show ?thesis .
next
  case (Some y)
  then have vy: "(v, y) \<in> (merge_rel m)\<^sup>*" and fp: "find_in_intintmap m y = None"
    using resolve_merge_reaches_fixed_point by blast+
  from chain_stays_before_cycle [OF vy assms] have "(y, c) \<in> (merge_rel m)\<^sup>*" .
  moreover have "y \<notin> Domain (merge_rel m)" using fp by (auto simp: merge_rel_def)
  ultimately have "y = c" by (metis Domain.DomainI converse_rtranclE)
  with cyc have "y \<in> Domain (merge_rel m)" by (metis Domain.DomainI tranclD)
  with \<open>y \<notin> Domain (merge_rel m)\<close> show ?thesis by simp
qed

text \<open>
  C4 (as amended): on an acyclic merge map the loop of \<open>resolve_merge\<close> returns, from any
  start vertex, after at most \<open>n\<close> executions of its body for a map of \<open>n\<close> entries, and
  the vertex returned is a fixed point (it has no entry in the map). When the chain of
  lookups from the start vertex runs into a cycle, the call never returns, whatever the
  budget: the loop has no cycle detection.
\<close>

theorem resolve_merge_termination:
  "(acyclic_map m \<longrightarrow>
      (\<exists>y. resolve_merge_fuel (length m) v m = Some y \<and> resolve_merge v m = Some y
            \<and> find_in_intintmap m y = None))
   \<and> ((v, c) \<in> (merge_rel m)\<^sup>* \<and> (c, c) \<in> (merge_rel m)\<^sup>+ \<longrightarrow>
        resolve_merge v m = None \<and> (\<forall>n. resolve_merge_fuel n v m = None))"
proof (intro conjI impI)
  assume "acyclic_map m"
  then show "\<exists>y. resolve_merge_fuel (length m) v m = Some y \<and> resolve_merge v m = Some y
            \<and> find_in_intintmap m y = None"
    by (rule resolve_merge_acyclic_returns)
next
  assume "(v, c) \<in> (merge_rel m)\<^sup>* \<and> (c, c) \<in> (merge_rel m)\<^sup>+"
  then have none: "resolve_merge v m = None"
    using resolve_merge_cycle_never_returns by blast
  then show "resolve_merge v m = None" .
  show "\<forall>n. resolve_merge_fuel n v m = None"
  proof
    fix n
    show "resolve_merge_fuel n v m = None"
      using none resolve_merge_fuel_sound [of n v m] by (cases "resolve_merge_fuel n v m") auto
  qed
qed

lemma acyclic_map_example: "acyclic_map [(3, 2), (2, 0)]"
  unfolding acyclic_map_def
proof (rule acyclicI_order [where f = id])
  fix a b :: int
  assume "(a, b) \<in> merge_rel [(3, 2), (2, 0)]"
  then show "id b < id a"
    by (auto simp: merge_rel_def split: if_splits)
qed

lemma cyclic_map_example: "(1, 1) \<in> (merge_rel [(1, 2), (2, 1)])\<^sup>+"
proof -
  have "(1, 2) \<in> merge_rel [(1, 2), (2, 1)]" by (simp add: merge_rel_def)
  then have "(1, 2) \<in> (merge_rel [(1, 2), (2, 1)])\<^sup>+" ..
  moreover have "(2, 1) \<in> merge_rel [(1, 2), (2, 1)]" by (simp add: merge_rel_def)
  ultimately show ?thesis ..
qed

theorem resolve_merge_termination_witness:
  "acyclic_map [(3, 2), (2, 0)] \<and> resolve_merge_fuel 2 3 [(3, 2), (2, 0)] = Some 0
     \<and> resolve_merge 3 [(3, 2), (2, 0)] = Some 0
     \<and> (1, 1) \<in> (merge_rel [(1, 2), (2, 1)])\<^sup>+
     \<and> resolve_merge 1 [(1, 2), (2, 1)] = None"
  using resolve_merge_termination [of "[(3, 2), (2, 0)]" 3]
    resolve_merge_termination [of "[(1, 2), (2, 1)]" 1 1]
    acyclic_map_example cyclic_map_example
  by (simp add: numeral_2_eq_2)

text \<open>
  C4 (as stated) fails: the loop has no cycle detection. On the two-entry map that sends
  vertex 1 to 2 and vertex 2 back to 1 the call never returns, and no budget suffices.
\<close>

theorem resolve_merge_cycle_diverges:
  "resolve_merge 1 [(1, 2), (2, 1)] = None
     \<and> (\<forall>n. resolve_merge_fuel n 1 [(1, 2), (2, 1)] = None)"
proof
  have "m = [(1, 2), (2, 1)] \<longrightarrow> v \<noteq> 1 \<and> v \<noteq> 2" if "resolve_merge v m = Some y" for v m y
    using that
  proof (induction rule: resolve_merge.raw_induct [rotated, consumes 1])
    case (1 rm v m y)
    then show ?case
      by (auto split: option.splits if_splits)
  qed
  then show "resolve_merge 1 [(1, 2), (2, 1)] = None"
    by (cases "resolve_merge 1 [(1, 2), (2, 1)]") auto
next
  have "resolve_merge_fuel n 1 [(1, 2), (2, 1)] = None
          \<and> resolve_merge_fuel n 2 [(1, 2), (2, 1)] = None" for n
    by (induction n) simp_all
  then show "\<forall>n. resolve_merge_fuel n 1 [(1, 2), (2, 1)] = None" by blast
qed

section \<open>Properties of edge staging\<close>

lemma meshadd_add_edge_fresh:
  "fst (meshadd_add_edge (init_meshadd nv n) a b eg checkdup)
     = \<lparr>verts = [], edges = [\<lparr>v1 = a, v2 = b, example = eg\<rparr>],
        edge_hash = [edgehash_key (uint_of_int a) (uint_of_int b) \<mapsto> 0],
        vindex_start = nv, eindex_start = n\<rparr>
   \<and> snd (meshadd_add_edge (init_meshadd nv n) a b eg checkdup) = n"
  by (simp add: meshadd_add_edge_def init_meshadd_def BLI_edgehash_lookup_default_def
      BLI_edgehash_insert_def meshadd_totedge_def Let_def)

lemma meshadd_add_edge_dup_returns_position:
  assumes "edge_hash meshadd (edgehash_key (uint_of_int a) (uint_of_int b)) = Some i"
    and "i \<noteq> - 1"
  shows "meshadd_add_edge meshadd a b eg True = (meshadd, i)"
  using assms by (simp add: meshadd_add_edge_def BLI_edgehash_lookup_default_def)

text \<open>
  C9 (the code at a failing input): on a host mesh of eight vertices and five edges
  (\<open>eindex_start = 5\<close>) the edge (10, 11) is staged first and receives extended index 5.
  Staging the same unordered pair again with \<open>checkdup\<close> stages nothing, as claimed,
  but returns 0, the bare buffer position, and not the extended index 5 of the first call.
  The sibling \<open>find_edge_by_verts_in_meshadd\<close> answers 5 for the same pair.
\<close>

theorem meshadd_add_edge_dup_index_mismatch:
  "(let (ma1, e1) = meshadd_add_edge (init_meshadd 8 5) 10 11 (- 1) True;
        (ma2, e2) = meshadd_add_edge ma1 11 10 (- 1) True
    in e1 = 5 \<and> e2 = 0 \<and> ma2 = ma1 \<and> find_edge_by_verts_in_meshadd ma1 11 10 = 5)"
  by (simp add: meshadd_add_edge_def init_meshadd_def BLI_edgehash_lookup_default_def
      BLI_edgehash_insert_def meshadd_totedge_def find_edge_by_verts_in_meshadd_def
      edgehash_key_def uint_of_int_def Let_def)

section \<open>Determinism of part-set pair intersection\<close>

lemma qsort_insert_mset: "mset (qsort_insert cmp x xs) = add_mset x (mset xs)"
  by (induction xs) simp_all

lemma qsort_mset: "mset (qsort cmp xs) = mset xs"
  unfolding qsort_def by (induction xs) (simp_all add: qsort_insert_mset)

lemma qsort_insert_set: "set (qsort_insert cmp x xs) = insert x (set xs)"
  by (induction xs) auto

lemma overlap_cmp_total: "bool_overlap_sort_fn a b \<le> 0 \<or> bool_overlap_sort_fn b a \<le> 0"
  by (simp add: bool_overlap_sort_fn_def)

lemma overlap_cmp_trans:
  "bool_overlap_sort_fn a b \<le> 0 \<Longrightarrow> bool_overlap_sort_fn b c \<le> 0
     \<Longrightarrow> bool_overlap_sort_fn a c \<le> 0"
  by (simp add: bool_overlap_sort_fn_def split: if_splits)

lemma overlap_cmp_antisym:
  "bool_overlap_sort_fn a b \<le> 0 \<Longrightarrow> bool_overlap_sort_fn b a \<le> 0 \<Longrightarrow> a = (b :: BVHTreeOverlap)"
  by (cases a, cases b) (simp add: bool_overlap_sort_fn_def split: if_splits)

lemma overlap_cmp_refl: "bool_overlap_sort_fn a a \<le> 0"
  by (simp add: bool_overlap_sort_fn_def)

lemma qsort_insert_sorted:
  "sorted_by bool_overlap_sort_fn xs \<Longrightarrow> sorted_by bool_overlap_sort_fn (qsort_insert bool_overlap_sort_fn x xs)"
proof (induction xs)
  case Nil
  then show ?case by (simp add: sorted_by_def)
next
  case (Cons y ys)
  show ?case
  proof (cases "bool_overlap_sort_fn x y \<le> 0")
    case True
    with Cons.prems show ?thesis
      by (auto simp: sorted_by_def intro: overlap_cmp_trans)
  next
    case False
    then have yx: "bool_overlap_sort_fn y x \<le> 0" using overlap_cmp_total [of x y] by simp
    from Cons.prems have ys: "sorted_by bool_overlap_sort_fn ys"
      and hd: "\<forall>z \<in> set ys. bool_overlap_sort_fn y z \<le> 0"
      by (simp_all add: sorted_by_def)
    from Cons.IH [OF ys] False yx hd show ?thesis
      by (simp add: sorted_by_def qsort_insert_set)
  qed
qed

lemma qsort_sorted: "sorted_by bool_overlap_sort_fn (qsort bool_overlap_sort_fn xs)"
proof (induction xs)
  case Nil
  then show ?case by (simp add: qsort_def sorted_by_def)
next
  case (Cons x xs)
  then show ?case
    using qsort_insert_sorted [of "qsort bool_overlap_sort_fn xs" x] by (simp add: qsort_def)
qed

text \<open>
  Whatever algorithm sorts them, two arrays of overlaps with the same entries, each
  ordered by \<open>bool_overlap_sort_fn\<close>, are the same array.
\<close>

lemma sorted_by_overlap_unique:
  "sorted_by bool_overlap_sort_fn xs \<Longrightarrow> sorted_by bool_overlap_sort_fn ys
     \<Longrightarrow> mset xs = mset ys \<Longrightarrow> xs = ys"
proof (induction xs arbitrary: ys)
  case Nil
  then show ?case by simp
next
  case (Cons x xs)
  from Cons.prems(3) obtain y ys' where ys: "ys = y # ys'"
    by (cases ys) auto
  have "x \<in> set ys" using Cons.prems(3) by (metis list.set_intros(1) mset_eq_setD)
  with Cons.prems(2) ys have yx: "bool_overlap_sort_fn y x \<le> 0"
    by (auto simp: sorted_by_def overlap_cmp_refl)
  have "y \<in> set (x # xs)" using Cons.prems(3) ys by (metis list.set_intros(1) mset_eq_setD)
  with Cons.prems(1) have xy: "bool_overlap_sort_fn x y \<le> 0"
    by (auto simp: sorted_by_def overlap_cmp_refl)
  from xy yx have eq: "x = y" by (rule overlap_cmp_antisym)
  with Cons.prems ys have "xs = ys'"
    by (intro Cons.IH) (simp_all add: sorted_by_def)
  with eq ys show ?case by simp
qed

lemma qsort_overlap_unique:
  "sorted_by bool_overlap_sort_fn ys \<Longrightarrow> mset ys = mset xs
     \<Longrightarrow> ys = qsort bool_overlap_sort_fn xs"
  by (rule sorted_by_overlap_unique) (simp_all add: qsort_sorted qsort_mset)

lemma qsort_overlap_permutation:
  "mset overlap1 = mset overlap2
     \<Longrightarrow> qsort bool_overlap_sort_fn overlap1 = qsort bool_overlap_sort_fn overlap2"
  by (rule sorted_by_overlap_unique) (simp_all add: qsort_sorted qsort_mset)

text \<open>
  C10: two runs of \<open>intersect_partset_pair\<close> on the same part sets and the same incoming
  change, whose overlap query returned the same overlaps in a different order, stage
  the same change: the overlaps are sorted lexicographically by (\<open>indexA\<close>, \<open>indexB\<close>)
  before any of them is processed.
\<close>

theorem intersect_partset_pair_order_independent:
  assumes "mset overlap1 = mset overlap2"
  shows "intersect_partset_pair ops e a_partset b_partset same_partsets overlap1 change0
       = intersect_partset_pair ops e a_partset b_partset same_partsets overlap2 change0"
  using qsort_overlap_permutation [OF assms] by (simp add: intersect_partset_pair_def)

lemma upt2: "[0..<2] = [0, Suc 0]"
  by (simp add: upt_rec)

theorem intersect_partset_pair_order_independent_witness:
  "mset [\<lparr>indexA = 1, indexB = 0\<rparr>, \<lparr>indexA = 0, indexB = 1\<rparr>]
     = mset [\<lparr>indexA = 0, indexB = 1\<rparr>, \<lparr>indexA = 1, indexB = 0\<rparr>]
   \<and> intersection_edges
       (intersect_partset_pair tracing_ops (1 / 1000)
          [\<lparr>plane = (0, 0, 1, 0), part_verts = [], part_edges = [], part_faces = [0]\<rparr>,
           \<lparr>plane = (0, 1, 0, 0), part_verts = [], part_edges = [], part_faces = [1]\<rparr>]
          [\<lparr>plane = (1, 0, 0, 0), part_verts = [], part_edges = [], part_faces = [2]\<rparr>,
           \<lparr>plane = (0, 0, 1, - 1), part_verts = [], part_edges = [], part_faces = [3]\<rparr>]
          False [\<lparr>indexA = 1, indexB = 0\<rparr>, \<lparr>indexA = 0, indexB = 1\<rparr>]
          (init_meshchange 12 12 4))
     = [10, 1]
   \<and> intersection_edges
       (intersect_partset_pair tracing_ops (1 / 1000)
          [\<lparr>plane = (0, 0, 1, 0), part_verts = [], part_edges = [], part_faces = [0]\<rparr>,
           \<lparr>plane = (0, 1, 0, 0), part_verts = [], part_edges = [], part_faces = [1]\<rparr>]
          [\<lparr>plane = (1, 0, 0, 0), part_verts = [], part_edges = [], part_faces = [2]\<rparr>,
           \<lparr>plane = (0, 0, 1, - 1), part_verts = [], part_edges = [], part_faces = [3]\<rparr>]
          False [\<lparr>indexA = 0, indexB = 1\<rparr>, \<lparr>indexA = 1, indexB = 0\<rparr>]
          (init_meshchange 12 12 4))
     = [10, 1]"
proof -
  have perm: "mset [\<lparr>indexA = 1, indexB = 0\<rparr>, \<lparr>indexA = 0, indexB = 1\<rparr>]
     = mset [\<lparr>indexA = 0, indexB = 1\<rparr>, \<lparr>indexA = 1, indexB = 0\<rparr>]"
    by simp
  let ?a = "[\<lparr>plane = (0, 0, 1, 0), part_verts = [], part_edges = [], part_faces = [0]\<rparr>,
           \<lparr>plane = (0, 1, 0, 0), part_verts = [], part_edges = [], part_faces = [1]\<rparr>]"
  let ?b = "[\<lparr>plane = (1, 0, 0, 0), part_verts = [], part_edges = [], part_faces = [2]\<rparr>,
           \<lparr>plane = (0, 0, 1, - 1), part_verts = [], part_edges = [], part_faces = [3]\<rparr>]"
  have val: "intersection_edges
       (intersect_partset_pair tracing_ops (1 / 1000) ?a ?b
          False [\<lparr>indexA = 0, indexB = 1\<rparr>, \<lparr>indexA = 1, indexB = 0\<rparr>]
          (init_meshchange 12 12 4))
     = [10, 1]"
    by (simp add: intersect_partset_pair_def qsort_def bool_overlap_sort_fn_def
        overlap_step_def isects_append_def self_intersect_all_a_def self_intersect_all_b_def
        tracing_ops_def init_meshchange_def upt2 Let_def)
  from intersect_partset_pair_order_independent
    [OF perm, of tracing_ops "1 / 1000" ?a ?b False "init_meshchange 12 12 4"] perm val
  show ?thesis
    by simp
qed

section \<open>Properties of the winding classifier and the boolean operator\<close>

lemma both_sides_flag_never: "both_sides_flag fside = False"
  by (simp add: both_sides_flag_def SIDE_A_def SIDE_B_def)

lemma face_negate_always: "face_negate fside = True"
proof -
  have "fside OR 4 \<noteq> 0"
  proof
    assume "fside OR 4 = 0"
    then have "bit (fside OR 4) 2 = bit (0::int) 2" by simp
    then show False by (simp add: bit_or_iff)
  qed
  then show ?thesis by (simp add: face_negate_def BOTH_SIDES_OPP_NORMALS_def)
qed

lemma fold_delete_faces:
  "delete (fold (\<lambda>g ch. ch\<lparr>delete := meshdelete_add_face (delete ch) (int g)\<rparr>) grp ch)
     = (delete ch)\<lparr>face_bmap := fold (\<lambda>g bm. bm[g := True]) grp (face_bmap (delete ch))\<rparr>
   \<and> face_flip (fold (\<lambda>g ch. ch\<lparr>delete := meshdelete_add_face (delete ch) (int g)\<rparr>) grp ch)
     = face_flip ch"
  by (induction grp arbitrary: ch) (simp_all add: meshdelete_add_face_def)

lemma set_bit_nth: "k < length bm \<Longrightarrow> bm[a := True] ! k = (a = k \<or> bm ! k)"
  by (cases "a = k") simp_all

lemma fold_set_bits:
  "k < length bm \<Longrightarrow> fold (\<lambda>g bm. bm[g := True]) grp bm ! k = (k \<in> set grp \<or> bm ! k)"
  by (induction grp arbitrary: bm) (auto simp: set_bit_nth)

lemma fold_set_bits_length: "length (fold (\<lambda>g bm. bm[g := True]) grp bm) = length bm"
  by (induction grp arbitrary: bm) auto

lemma find_in_intset_iff: "find_in_intset s v \<longleftrightarrow> v \<in> set s"
  by (induction s) auto

lemma fold_flip_faces:
  "delete (fold (\<lambda>g ch. ch\<lparr>face_flip := add_to_intset (face_flip ch) (int g)\<rparr>) grp ch)
     = delete ch
   \<and> set (face_flip (fold (\<lambda>g ch. ch\<lparr>face_flip := add_to_intset (face_flip ch) (int g)\<rparr>) grp ch))
     = int ` set grp \<union> set (face_flip ch)"
  by (induction grp arbitrary: ch) (auto simp: add_to_intset_def find_in_intset_iff)

lemma do_boolean_group_effect:
  assumes act: "boolean_group_action bs mode f = Some (do_remove, do_flip)"
    and g: "g \<in> set (f # rest)"
    and fresh: "g < length (face_bmap (delete ch))" "\<not> face_bmap (delete ch) ! g"
       "\<not> find_in_intset (face_flip ch) (int g)"
  shows "meshdelete_find_face (delete (do_boolean_group bs mode (f # rest) ch)) (int g) = do_remove"
    and "find_in_intset (face_flip (do_boolean_group bs mode (f # rest) ch)) (int g)
           = (\<not> do_remove \<and> do_flip)"
proof -
  show "meshdelete_find_face (delete (do_boolean_group bs mode (f # rest) ch)) (int g) = do_remove"
  proof (cases do_remove)
    case True
    then show ?thesis
      using act g fresh fold_delete_faces [of "f # rest" ch] fold_set_bits [of g "face_bmap (delete ch)" "f # rest"]
      by (simp add: do_boolean_group_def meshdelete_find_face_def)
  next
    case False
    then show ?thesis
      using act g fresh fold_flip_faces [of "f # rest" ch]
      by (cases do_flip) (simp_all add: do_boolean_group_def meshdelete_find_face_def)
  qed
  show "find_in_intset (face_flip (do_boolean_group bs mode (f # rest) ch)) (int g)
           = (\<not> do_remove \<and> do_flip)"
  proof (cases do_remove)
    case True
    then show ?thesis
      using act g fresh fold_delete_faces [of "f # rest" ch]
      by (simp add: do_boolean_group_def)
  next
    case False
    then show ?thesis
      using act g fresh fold_flip_faces [of "f # rest" ch]
      by (cases do_flip) (auto simp add: do_boolean_group_def find_in_intset_iff)
  qed
qed

lemma boolean_group_action_single_side:
  assumes "face_side_at bs f \<noteq> 0"
  shows "boolean_group_action bs mode f =
    (let fside = face_side_at bs f;
         inside = point_is_inside_side bs (fside XOR (SIDE_A OR SIDE_B)) (point_in_face (im bs) f)
     in case mode of
          BMESH_BOOLEAN_ISECT \<Rightarrow> Some (\<not> inside, False)
        | BMESH_BOOLEAN_UNION \<Rightarrow> Some (inside, False)
        | BMESH_BOOLEAN_DIFFERENCE \<Rightarrow>
            Some (if (fside AND SIDE_A) \<noteq> 0 then inside else \<not> inside,
                  (fside AND SIDE_B) \<noteq> 0))"
  using assms by (simp add: boolean_group_action_def both_sides_flag_never Let_def)

lemma otherside_of_side_a: "SIDE_A XOR (SIDE_A OR SIDE_B) = SIDE_B"
  by (simp add: SIDE_A_def SIDE_B_def)

lemma otherside_of_side_b: "SIDE_B XOR (SIDE_A OR SIDE_B) = SIDE_A"
  by (simp add: SIDE_A_def SIDE_B_def)

text \<open>
  For a flag that carries one side bit together with the opposite-normals bit, the mask
  \<open>fside ^ (SIDE_A | SIDE_B)\<close> keeps the opposite-normals bit: the winding test then
  also visits faces that are not on the other side, the face itself among them.
\<close>

lemma otherside_with_opp_normals:
  "(SIDE_A OR BOTH_SIDES_OPP_NORMALS) XOR (SIDE_A OR SIDE_B) = (SIDE_B OR BOTH_SIDES_OPP_NORMALS)
   \<and> ((SIDE_A OR BOTH_SIDES_OPP_NORMALS) AND (SIDE_B OR BOTH_SIDES_OPP_NORMALS)) \<noteq> 0
   \<and> ((SIDE_A OR BOTH_SIDES_OPP_NORMALS) AND SIDE_B) = 0"
  by (simp add: SIDE_A_def SIDE_B_def BOTH_SIDES_OPP_NORMALS_def)

text \<open>The winding number as a sum over the faces that share a bit with \<open>side\<close>.\<close>

lemma fold_add_sum_list:
  "fold (\<lambda>x (acc::real). acc + g x) xs a = a + sum_list (map g xs)"
  by (induction xs arbitrary: a) simp_all

lemma fold_faces_sum_list:
  "fold (\<lambda>f (acc::real). if p f then acc else fold (\<lambda>t g. g + h f t) (ts f) acc) fs a
     = a + sum_list (map (\<lambda>f. sum_list (map (h f) (ts f))) (filter (\<lambda>f. \<not> p f) fs))"
  by (induction fs arbitrary: a) (simp_all add: fold_add_sum_list)

lemma generalized_winding_number_sum:
  "generalized_winding_number bs side pt =
     sum_list (map (\<lambda>f. sum_list (map (triangle_fgwn (face_negate (face_side_at bs f)) pt)
                                     (face_tess (im bs) f)))
                 (filter (\<lambda>f. (face_side_at bs f AND side) \<noteq> 0) [0..<totface (im bs)]))
     / (pi * 4)"
  using fold_faces_sum_list
    [of "\<lambda>f. (face_side_at bs f AND side) = 0"
        "\<lambda>f t. triangle_fgwn (face_negate (face_side_at bs f)) pt t"
        "face_tess (im bs)" "[0..<totface (im bs)]" 0]
  by (simp add: generalized_winding_number_def Let_def)

lemma boolean_group_action_unsided:
  "face_side_at bs f = 0 \<Longrightarrow> boolean_group_action bs mode f = None"
  by (simp add: boolean_group_action_def Let_def)

text \<open>
  C1 (as amended): let the representative face of a group carry the flag \<open>SIDE_A\<close> or
  the flag \<open>SIDE_B\<close> and nothing else, and let \<open>inside\<close> be the winding test of the point
  computed inside the representative against the faces of the opposite side (the faces
  whose flag carries the other side bit; the winding number is the sum of the
  contributions of exactly those faces). Then \<open>inside\<close> holds iff \<open>|gwn| \<ge> 0.5\<close>, and
  every face of the group is marked for deletion iff: not inside (intersection); inside
  (union); inside for a side-A group and not inside for a side-B group (difference). A
  face of the group is entered in the flip set iff the mode is difference, the group is
  on side B and the face is not deleted. A group whose representative has flag 0 is
  skipped under every mode: the change is left as it was, no face of the group is
  deleted or flipped. The faces of the group are taken as untouched by the groups
  processed before.
\<close>

theorem do_boolean_op_single_side_rules:
  fixes bs :: BoolState and mode :: boolean_mode and f :: nat and rest :: "nat list"
    and ch :: MeshChange
  defines "fside \<equiv> face_side_at bs f"
  defines "pt \<equiv> point_in_face (im bs) f"
  defines "other \<equiv> (if fside = SIDE_A then SIDE_B else SIDE_A)"
  defines "gwn \<equiv> generalized_winding_number bs other pt"
  defines "inside \<equiv> point_is_inside_side bs other pt"
  defines "ch' \<equiv> do_boolean_group bs mode (f # rest) ch"
  assumes fresh: "\<forall>g \<in> set (f # rest). g < length (face_bmap (delete ch))
                  \<and> \<not> meshdelete_find_face (delete ch) (int g)
                  \<and> \<not> find_in_intset (face_flip ch) (int g)"
  shows "(inside \<longleftrightarrow> \<bar>gwn\<bar> \<ge> 0.5)
       \<and> gwn = sum_list (map (\<lambda>f'. sum_list (map (triangle_fgwn (face_negate (face_side_at bs f')) pt)
                                              (face_tess (im bs) f')))
                          (filter (\<lambda>f'. (face_side_at bs f' AND other) \<noteq> 0)
                             [0..<totface (im bs)]))
               / (pi * 4)
       \<and> (fside = SIDE_A \<or> fside = SIDE_B \<longrightarrow>
            (\<forall>g \<in> set (f # rest).
               (meshdelete_find_face (delete ch') (int g) \<longleftrightarrow>
                  (case mode of
                     BMESH_BOOLEAN_ISECT \<Rightarrow> \<not> inside
                   | BMESH_BOOLEAN_UNION \<Rightarrow> inside
                   | BMESH_BOOLEAN_DIFFERENCE \<Rightarrow>
                       if fside = SIDE_A then inside else \<not> inside))
             \<and> (find_in_intset (face_flip ch') (int g) \<longleftrightarrow>
                  mode = BMESH_BOOLEAN_DIFFERENCE \<and> fside = SIDE_B
                    \<and> \<not> meshdelete_find_face (delete ch') (int g))))
       \<and> (fside = 0 \<longrightarrow>
            ch' = ch
            \<and> (\<forall>g \<in> set (f # rest).
                  \<not> meshdelete_find_face (delete ch') (int g)
                  \<and> \<not> find_in_intset (face_flip ch') (int g)))"
proof (intro conjI impI ballI)
  show "inside \<longleftrightarrow> \<bar>gwn\<bar> \<ge> 0.5"
    by (simp add: inside_def gwn_def point_is_inside_side_def)
next
  show "gwn = sum_list (map (\<lambda>f'. sum_list (map (triangle_fgwn (face_negate (face_side_at bs f')) pt)
                                              (face_tess (im bs) f')))
                          (filter (\<lambda>f'. (face_side_at bs f' AND other) \<noteq> 0)
                             [0..<totface (im bs)]))
               / (pi * 4)"
    unfolding gwn_def by (rule generalized_winding_number_sum)
next
  fix g assume side: "fside = SIDE_A \<or> fside = SIDE_B" and g: "g \<in> set (f # rest)"
  with fresh have fr: "g < length (face_bmap (delete ch))" "\<not> face_bmap (delete ch) ! g"
      "\<not> find_in_intset (face_flip ch) (int g)"
    by (auto simp: meshdelete_find_face_def)
  from side have nonzero: "face_side_at bs f \<noteq> 0"
    by (auto simp: fside_def SIDE_A_def SIDE_B_def)
  from side have mask: "fside XOR (SIDE_A OR SIDE_B) = other"
    using otherside_of_side_a otherside_of_side_b
    by (auto simp: other_def SIDE_A_def SIDE_B_def)
  from side have bits: "((fside AND SIDE_A) \<noteq> 0) = (fside = SIDE_A)"
      "((fside AND SIDE_B) \<noteq> 0) = (fside = SIDE_B)"
    by (auto simp: SIDE_A_def SIDE_B_def)
  define do_remove where "do_remove = (case mode of
                  BMESH_BOOLEAN_ISECT \<Rightarrow> \<not> inside
                | BMESH_BOOLEAN_UNION \<Rightarrow> inside
                | BMESH_BOOLEAN_DIFFERENCE \<Rightarrow>
                    if fside = SIDE_A then inside else \<not> inside)"
  define do_flip where "do_flip = (mode = BMESH_BOOLEAN_DIFFERENCE \<and> fside = SIDE_B)"
  note rem = do_remove_def and flp = do_flip_def
  have ins: "point_is_inside_side bs (fside XOR (SIDE_A OR SIDE_B)) (point_in_face (im bs) f)
               = inside"
    using mask by (simp add: inside_def pt_def)
  note act0 = boolean_group_action_single_side
    [OF nonzero, of mode, unfolded Let_def, folded fside_def, unfolded ins]
  have act: "boolean_group_action bs mode f = Some (do_remove, do_flip)"
    using act0 bits by (cases mode) (simp_all add: do_remove_def do_flip_def)
  from do_boolean_group_effect [OF act g fr]
  have d: "meshdelete_find_face (delete ch') (int g) = do_remove"
    and fl: "find_in_intset (face_flip ch') (int g) = (\<not> do_remove \<and> do_flip)"
    by (simp_all add: ch'_def)
  show "meshdelete_find_face (delete ch') (int g) \<longleftrightarrow>
               (case mode of
                  BMESH_BOOLEAN_ISECT \<Rightarrow> \<not> inside
                | BMESH_BOOLEAN_UNION \<Rightarrow> inside
                | BMESH_BOOLEAN_DIFFERENCE \<Rightarrow>
                    if fside = SIDE_A then inside else \<not> inside)"
    using d rem by simp
  show "find_in_intset (face_flip ch') (int g) \<longleftrightarrow>
               mode = BMESH_BOOLEAN_DIFFERENCE \<and> fside = SIDE_B
                 \<and> \<not> meshdelete_find_face (delete ch') (int g)"
    using d fl flp by auto
next
  assume zero: "fside = 0"
  then show same: "ch' = ch"
    using boolean_group_action_unsided [of bs f mode]
    by (simp add: ch'_def fside_def do_boolean_group_def)
  fix g assume g: "g \<in> set (f # rest)"
  with fresh same show "\<not> meshdelete_find_face (delete ch') (int g)"
    and "\<not> find_in_intset (face_flip ch') (int g)"
    by auto
qed

lemma pi_not_le_zero: "\<not> pi \<le> 0"
  using pi_gt_zero by linarith

lemmas boolean_eval_defs =
  do_boolean_op_change_def do_boolean_group_def boolean_group_action_def both_sides_flag_def
  opp_normals_flag_def generalized_winding_number_def single_triangle_mesh_def face_side_at_def
  SIDE_A_def SIDE_B_def BOTH_SIDES_OPP_NORMALS_def point_is_inside_side_def add_to_intset_def
  init_meshchange_def init_meshdelete_def init_meshadd_def meshdelete_find_face_def
  meshdelete_add_face_def Let_def pi_not_le_zero

theorem do_boolean_op_single_side_rules_witness:
  "face_side_at \<lparr>im = single_triangle_mesh, eps = 1 / 10 ^ 6, face_side = [1]\<rparr> 0 = SIDE_A
   \<and> \<not> point_is_inside_side \<lparr>im = single_triangle_mesh, eps = 1 / 10 ^ 6, face_side = [1]\<rparr>
         SIDE_B (1 / 3, 1 / 3, 1 / 3)
   \<and> \<not> meshdelete_find_face (delete (init_meshchange 3 3 1)) 0
   \<and> \<not> find_in_intset (face_flip (init_meshchange 3 3 1)) 0
   \<and> meshdelete_find_face
       (delete (do_boolean_group \<lparr>im = single_triangle_mesh, eps = 1 / 10 ^ 6, face_side = [1]\<rparr>
                  BMESH_BOOLEAN_ISECT [0] (init_meshchange 3 3 1))) 0
   \<and> \<not> find_in_intset
       (face_flip (do_boolean_group \<lparr>im = single_triangle_mesh, eps = 1 / 10 ^ 6, face_side = [1]\<rparr>
                  BMESH_BOOLEAN_ISECT [0] (init_meshchange 3 3 1))) 0
   \<and> face_side_at \<lparr>im = single_triangle_mesh, eps = 1 / 10 ^ 6, face_side = [0]\<rparr> 0 = 0
   \<and> do_boolean_group \<lparr>im = single_triangle_mesh, eps = 1 / 10 ^ 6, face_side = [0]\<rparr>
        BMESH_BOOLEAN_UNION [0] (init_meshchange 3 3 1) = init_meshchange 3 3 1"
  using do_boolean_op_single_side_rules
    [where bs = "\<lparr>im = single_triangle_mesh, eps = 1 / 10 ^ 6, face_side = [1]\<rparr>"
       and f = 0 and rest = "[]" and ch = "init_meshchange 3 3 1"
       and mode = BMESH_BOOLEAN_ISECT]
    do_boolean_op_single_side_rules
    [where bs = "\<lparr>im = single_triangle_mesh, eps = 1 / 10 ^ 6, face_side = [0]\<rparr>"
       and f = 0 and rest = "[]" and ch = "init_meshchange 3 3 1"
       and mode = BMESH_BOOLEAN_UNION]
  by (simp add: boolean_eval_defs)


text \<open>
  C1 (as stated) fails for a group whose representative carries no side bit at all
  (a face the side predicate ignored): it does not carry both side bits, its point is
  not inside, and yet intersection leaves it alone, because \<open>do_boolean_op\<close> skips every
  group with \<open>fside == 0\<close>.
\<close>

theorem do_boolean_op_skips_unsided_group:
  "\<not> ((face_side_at \<lparr>im = single_triangle_mesh, eps = 1 / 10 ^ 6, face_side = [0]\<rparr> 0 AND SIDE_A) \<noteq> 0
        \<and> (face_side_at \<lparr>im = single_triangle_mesh, eps = 1 / 10 ^ 6, face_side = [0]\<rparr> 0 AND SIDE_B) \<noteq> 0)
   \<and> \<not> point_is_inside_side \<lparr>im = single_triangle_mesh, eps = 1 / 10 ^ 6, face_side = [0]\<rparr>
         (0 XOR (SIDE_A OR SIDE_B)) (1 / 3, 1 / 3, 1 / 3)
   \<and> \<not> meshdelete_find_face
       (delete (do_boolean_op_change
                  \<lparr>im = single_triangle_mesh, eps = 1 / 10 ^ 6, face_side = [0]\<rparr>
                  BMESH_BOOLEAN_ISECT [[0]])) 0"
  by (simp add: boolean_eval_defs)

text \<open>
  C2 (the code at a failing input): the test \<open>fside & (SIDE_A & SIDE_B)\<close> is never
  true, so a group on both sides is classified by the winding number like any other.
  For a face with flag \<open>SIDE_A | SIDE_B\<close> and the opposite-normals bit clear, difference
  decides "keep and flip", where the both-sides rule asks for no flip.
\<close>

theorem do_boolean_op_both_sides_difference_flips:
  "both_sides_flag 3 = False
   \<and> (3 AND SIDE_A) \<noteq> 0 \<and> (3 AND SIDE_B) \<noteq> 0 \<and> opp_normals_flag 3 = False
   \<and> boolean_group_action \<lparr>im = single_triangle_mesh, eps = 1 / 10 ^ 6, face_side = [3]\<rparr>
        BMESH_BOOLEAN_DIFFERENCE 0 = Some (False, True)
   \<and> face_flip (do_boolean_op_change
                  \<lparr>im = single_triangle_mesh, eps = 1 / 10 ^ 6, face_side = [3]\<rparr>
                  BMESH_BOOLEAN_DIFFERENCE [[0]]) = [0]"
  by (simp add: boolean_eval_defs)

text \<open>
  C3 (the code at a failing input): a single side-A face whose opposite-normals bit is
  clear, seen from the origin under the solid angle \<open>pi / 2\<close>. Its contribution enters
  the sum negated, and the winding number is \<open>-1/8\<close> instead of \<open>1/8\<close>.
\<close>

theorem generalized_winding_number_negates_unflagged_face:
  "opp_normals_flag (face_side_at \<lparr>im = single_triangle_mesh, eps = 1 / 10 ^ 6, face_side = [1]\<rparr> 0)
     = False
   \<and> face_negate (face_side_at \<lparr>im = single_triangle_mesh, eps = 1 / 10 ^ 6, face_side = [1]\<rparr> 0)
     = True
   \<and> triangle_fgwn False (0, 0, 0) ((1, 0, 0), (0, 1, 0), (0, 0, 1)) = pi / 2
   \<and> generalized_winding_number \<lparr>im = single_triangle_mesh, eps = 1 / 10 ^ 6, face_side = [1]\<rparr>
        SIDE_A (0, 0, 0) = - (1 / 8)"
  by (simp add: boolean_eval_defs triangle_fgwn_def face_negate_always len_v3_db_def atan2_def
      arctan_one)

section \<open>The return value of the entry point\<close>

text \<open>
  C5 (the code at a failing input): the entry point returns true whatever its
  collaborators do. In particular, on a mesh without elements, where the intersection
  phase stages nothing, the applier has nothing to apply and there is no face group,
  the union operator leaves the mesh as it was, and the entry point still returns true.
\<close>

theorem BM_mesh_boolean_true_on_unchanged_mesh:
  "snd (BM_mesh_boolean ops bm test_fn use_self boolean_mode eps0) = True
   \<and> BM_mesh_boolean idle_ops empty_mesh (\<lambda>f. 0) False (Some BMESH_BOOLEAN_UNION) (1 / 10 ^ 6)
     = (empty_mesh, True)"
  by (simp add: BM_mesh_boolean_def do_boolean_op_def idle_ops_def Let_def)

section \<open>Properties of part-set construction\<close>

lemma range_search_fields:
  "cb_eps (fold (\<lambda>(index, node_co) d.
             if len_squared_v4v4 node_co pl \<le> r then find_coplanar_cb d index node_co
             else d) tree d0) = cb_eps d0
   \<and> test_plane (fold (\<lambda>(index, node_co) d.
             if len_squared_v4v4 node_co pl \<le> r then find_coplanar_cb d index node_co
             else d) tree d0) = test_plane d0
   \<and> face_part (fold (\<lambda>(index, node_co) d.
             if len_squared_v4v4 node_co pl \<le> r then find_coplanar_cb d index node_co
             else d) tree d0) = face_part d0"
  by (induction tree arbitrary: d0) (auto simp: find_coplanar_cb_def)

lemma range_search_near:
  fixes tree :: KDTree_4d and d0 :: FindCoplanarCBData
  assumes "cb_eps d0 = feps" "test_plane d0 = pl" "face_part d0 = fpart"
    and "near_f_with_part d0 = - 1 \<or> 0 \<le> near_f_with_part d0"
  defines "res \<equiv> near_f_with_part (fold (\<lambda>(index, node_co) d.
             if len_squared_v4v4 node_co pl \<le> (feps * 10) * (feps * 10)
             then find_coplanar_cb d index node_co else d) tree d0)"
  defines "M \<equiv> near_candidates tree feps fpart pl"
  shows "(res = - 1 \<longleftrightarrow> near_f_with_part d0 = - 1 \<and> M = {})
       \<and> (res \<noteq> - 1 \<longrightarrow> 0 \<le> res \<and> (nat res \<in> M \<or> res = near_f_with_part d0)
             \<and> (\<forall>g \<in> M. res \<le> int g) \<and> (near_f_with_part d0 \<noteq> - 1 \<longrightarrow> res \<le> near_f_with_part d0))"
  using assms(1-4) unfolding res_def M_def
proof (induction tree arbitrary: d0)
  case Nil
  then show ?case by (auto simp: near_candidates_def)
next
  case (Cons a tree)
  obtain i c where a: "a = (i, c)" by (cases a)
  let ?d1 = "if len_squared_v4v4 c pl \<le> (feps * 10) * (feps * 10)
             then find_coplanar_cb d0 i c else d0"
  have f1: "cb_eps ?d1 = feps" "test_plane ?d1 = pl" "face_part ?d1 = fpart"
    using Cons.prems by (auto simp: find_coplanar_cb_def)
  have n1: "near_f_with_part ?d1 = - 1 \<or> 0 \<le> near_f_with_part ?d1"
    using Cons.prems by (auto simp: find_coplanar_cb_def)
  note IH = Cons.IH [OF f1 n1]
  define res where "res = near_f_with_part (fold (\<lambda>(index, node_co) d.
             if len_squared_v4v4 node_co pl \<le> (feps * 10) * (feps * 10)
             then find_coplanar_cb d index node_co else d) tree ?d1)"
  define n0 where "n0 = near_f_with_part d0"
  define n1 where "n1 = near_f_with_part ?d1"
  define M' where "M' = near_candidates tree feps fpart pl"
  define E where "E = near_entry feps fpart pl i c"
  have cand: "near_candidates (a # tree) feps fpart pl = (if E then {i} else {}) \<union> M'"
    unfolding near_candidates_def a M'_def E_def by (auto simp del: split_paired_Ex)
  have n1: "n1 = (if E \<and> (n0 = - 1 \<or> int i < n0) then int i else n0)"
    using Cons.prems(1-3)
    by (auto simp: n1_def n0_def E_def near_entry_def find_coplanar_cb_def)
  have n0: "n0 = - 1 \<or> 0 \<le> n0"
    using Cons.prems(4) by (simp add: n0_def)
  have IH': "(res = - 1 \<longleftrightarrow> n1 = - 1 \<and> M' = {})
       \<and> (res \<noteq> - 1 \<longrightarrow> 0 \<le> res \<and> (nat res \<in> M' \<or> res = n1)
             \<and> (\<forall>g \<in> M'. res \<le> int g) \<and> (n1 \<noteq> - 1 \<longrightarrow> res \<le> n1))"
    using IH unfolding res_def n1_def M'_def by blast
  have goal: "(res = - 1 \<longleftrightarrow> n0 = - 1 \<and> (if E then {i} else {}) \<union> M' = {})
       \<and> (res \<noteq> - 1 \<longrightarrow> 0 \<le> res \<and> (nat res \<in> (if E then {i} else {}) \<union> M' \<or> res = n0)
             \<and> (\<forall>g \<in> (if E then {i} else {}) \<union> M'. res \<le> int g)
             \<and> (n0 \<noteq> - 1 \<longrightarrow> res \<le> n0))"
  proof (cases "E \<and> (n0 = - 1 \<or> int i < n0)")
    case True
    with n1 have "n1 = int i" by simp
    with IH' True n0 show ?thesis by auto
  next
    case False
    with n1 have "n1 = n0" by simp
    with IH' False n0 show ?thesis by auto
  qed
  have "near_f_with_part (fold (\<lambda>(index, node_co) d.
             if len_squared_v4v4 node_co pl \<le> (feps * 10) * (feps * 10)
             then find_coplanar_cb d index node_co else d) (a # tree) d0) = res"
    by (simp add: res_def a)
  with goal show ?case
    unfolding cand n0_def by simp
qed

lemma find_near_f_char:
  fixes tree feps fpart pl
  defines "near_f \<equiv> find_near_f tree feps fpart pl"
  defines "M \<equiv> near_candidates tree feps fpart pl"
  shows "(near_f = - 1 \<longleftrightarrow> M = {})
       \<and> (M \<noteq> {} \<longrightarrow> near_f = int (LEAST g. g \<in> M) \<and> (LEAST g. g \<in> M) \<in> M)"
proof -
  let ?d0 = "\<lparr>near_f_with_part = - 1, cb_eps = feps, test_plane = pl, face_part = fpart\<rparr>"
  have eq: "near_f = near_f_with_part (fold (\<lambda>(index, node_co) d.
             if len_squared_v4v4 node_co pl \<le> (feps * 10) * (feps * 10)
             then find_coplanar_cb d index node_co else d) tree ?d0)"
    by (simp add: near_f_def find_near_f_def BLI_kdtree_4d_range_search_cb_def)
  from range_search_near [of ?d0 feps pl fpart tree]
  have r: "(near_f = - 1 \<longleftrightarrow> M = {})"
    "near_f \<noteq> - 1 \<Longrightarrow> 0 \<le> near_f \<and> nat near_f \<in> M \<and> (\<forall>g \<in> M. near_f \<le> int g)"
    unfolding eq M_def by auto
  have "near_f = int (LEAST g. g \<in> M) \<and> (LEAST g. g \<in> M) \<in> M" if "M \<noteq> {}"
  proof -
    from that r have n: "0 \<le> near_f" "nat near_f \<in> M" "\<forall>g \<in> M. near_f \<le> int g" by auto
    then have "(LEAST g. g \<in> M) = nat near_f"
      by (intro Least_equality) auto
    with n show ?thesis by simp
  qed
  with r(1) show ?thesis by blast
qed

text \<open>
  C7 (as amended): in \<open>find_coplanar_parts\<close>, a face is appended to an existing part iff
  some already assigned candidate found by the 4-D range search within \<open>10 eps\<close> has a
  canonical plane \<open>(n2, d2)\<close> with \<open>|d1 - d2| \<le> eps\<close> and \<open>|n1 . n2 - 1| \<le> eps (2 / pi)\<close>
  against the canonical plane \<open>(n1, d1)\<close> of the face; it then joins the part of the
  matching candidate with the smallest face index. Otherwise a new part is created for
  the face.
\<close>

theorem find_coplanar_step_rule:
  fixes face_plane tree feps fpart partset f
  defines "pl \<equiv> canonicalize_plane (face_plane f)"
  defines "M \<equiv> near_candidates tree feps fpart pl"
  defines "st \<equiv> find_coplanar_step face_plane tree feps f (partset, fpart)"
  shows "(M = {} \<longrightarrow>
           st = (partset @ [\<lparr>plane = pl, part_verts = [], part_edges = [],
                             part_faces = [int f]\<rparr>],
                 fpart[f := Some (length partset)]))
       \<and> (M \<noteq> {} \<longrightarrow>
           (\<exists>p. fpart ! (LEAST g. g \<in> M) = Some p
              \<and> st = (partset[p := add_face_to_part (partset ! p) (int f)],
                       fpart[f := Some p])))"
proof (intro conjI impI)
  assume "M = {}"
  then have "find_near_f tree feps fpart pl = - 1"
    using find_near_f_char [of tree feps fpart pl] by (simp add: M_def)
  then show "st = (partset @ [\<lparr>plane = pl, part_verts = [], part_edges = [],
                             part_faces = [int f]\<rparr>],
                 fpart[f := Some (length partset)])"
    by (simp add: st_def find_coplanar_step_def pl_def Let_def)
next
  assume ne: "M \<noteq> {}"
  then have near: "find_near_f tree feps fpart pl = int (LEAST g. g \<in> M)"
    and least: "(LEAST g. g \<in> M) \<in> M"
    using find_near_f_char [of tree feps fpart pl] by (simp_all add: M_def)
  from least obtain p where p: "fpart ! (LEAST g. g \<in> M) = Some p"
    by (auto simp: M_def near_candidates_def near_entry_def)
  have "st = (partset[p := add_face_to_part (partset ! p) (int f)], fpart[f := Some p])"
    using near p by (simp add: st_def find_coplanar_step_def pl_def Let_def)
  with p show "\<exists>p. fpart ! (LEAST g. g \<in> M) = Some p
              \<and> st = (partset[p := add_face_to_part (partset ! p) (int f)],
                       fpart[f := Some p])"
    by blast
qed

lemma pi_ge_three: "3 \<le> pi"
proof -
  have "sin (pi / 6) \<le> pi / 6" by (rule sin_x_le_x) simp
  then show ?thesis by (simp add: sin_30)
qed

lemma M_2_PI_small: "\<not> 1 / 13 \<le> (1 / 10) * M_2_PI"
proof -
  have "(1 / 10) * M_2_PI \<le> (1 / 10) * (2 / 3)"
    unfolding M_2_PI_def using pi_ge_three pi_gt_zero by (simp add: field_simps)
  then show ?thesis by simp
qed

text \<open>
  C7 (as stated) fails: with \<open>eps = 1/10\<close>, face 1 has the already assigned candidate
  face 0 within the search radius, and their planes are coplanar by the predicate of the
  claim (and by \<open>planes_are_coplanar\<close>): the normals have dot product \<open>12/13 \<ge> 1 - eps\<close>
  and the offsets agree. The callback tests \<open>|n1 . n2 - 1| \<le> eps (2 / pi)\<close> instead, which
  fails, and face 1 gets a part of its own.
\<close>

theorem find_coplanar_parts_spec_predicate_fails:
  "spec_coplanar (12 / 13, 5 / 13, 0, - 1) (1, 0, 0, - 1) (1 / 10)
   \<and> planes_are_coplanar (12 / 13, 5 / 13, 0, - 1) (1, 0, 0, - 1) (1 / 10)
   \<and> len_squared_v4v4 (1, 0, 0, - 1) (12 / 13, 5 / 13, 0, - 1) \<le> (10 * (1 / 10)) * (10 * (1 / 10))
   \<and> find_coplanar_parts two_face_state two_plane_faces SIDE_A
       = [\<lparr>plane = (1, 0, 0, - 1), part_verts = [], part_edges = [], part_faces = [0]\<rparr>,
          \<lparr>plane = (12 / 13, 5 / 13, 0, - 1), part_verts = [], part_edges = [],
             part_faces = [1]\<rparr>]"
proof -
  have m: "\<not> 10 \<le> M_2_PI * 13" using M_2_PI_small by simp
  show ?thesis
  by (simp add: find_coplanar_parts_def two_face_state_def two_plane_faces_def SIDE_A_def
      face_side_at_def upt2 BLI_kdtree_4d_insert_def find_coplanar_step_def find_near_f_def
      BLI_kdtree_4d_range_search_cb_def find_coplanar_cb_def Let_def power2_eq_square m)
qed

theorem find_coplanar_step_rule_witness:
  "near_candidates [(0, (0, 0, 1, - 1)), (1, (0, 0, 1, - 1))] (1 / 1000) [None, None]
       (canonicalize_plane (0, 0, 1, - 1)) = {}
   \<and> find_coplanar_step (\<lambda>f. (0, 0, 1, - 1)) [(0, (0, 0, 1, - 1)), (1, (0, 0, 1, - 1))]
       (1 / 1000) 0 ([], [None, None])
     = ([\<lparr>plane = (0, 0, 1, - 1), part_verts = [], part_edges = [], part_faces = [0]\<rparr>],
        [Some 0, None])
   \<and> near_candidates [(0, (0, 0, 1, - 1)), (1, (0, 0, 1, - 1))] (1 / 1000) [Some 0, None]
       (canonicalize_plane (0, 0, 1, - 1)) \<noteq> {}
   \<and> find_coplanar_step (\<lambda>f. (0, 0, 1, - 1)) [(0, (0, 0, 1, - 1)), (1, (0, 0, 1, - 1))]
       (1 / 1000) 1
       ([\<lparr>plane = (0, 0, 1, - 1), part_verts = [], part_edges = [], part_faces = [0]\<rparr>],
        [Some 0, None])
     = ([\<lparr>plane = (0, 0, 1, - 1), part_verts = [], part_edges = [], part_faces = [1, 0]\<rparr>],
        [Some 0, Some 0])"
proof -
  let ?p = "(0, 0, 1, - 1) :: plane4"
  let ?tree = "[(0, ?p), (1, ?p)] :: KDTree_4d"
  have canon: "canonicalize_plane ?p = ?p" by simp
  have M1: "near_candidates ?tree (1 / 1000) [None, None] (canonicalize_plane ?p) = {}"
    by (auto simp: near_candidates_def near_entry_def)
  have M2: "near_candidates ?tree (1 / 1000) [Some 0, None] (canonicalize_plane ?p) = {0}"
    by (auto simp: near_candidates_def near_entry_def M_2_PI_def)
  from find_coplanar_step_rule [of ?tree "1 / 1000" "[None, None]" "\<lambda>f. ?p" 0 "[]"] M1
  have s1: "find_coplanar_step (\<lambda>f. ?p) ?tree (1 / 1000) 0 ([], [None, None])
     = ([\<lparr>plane = ?p, part_verts = [], part_edges = [], part_faces = [0]\<rparr>], [Some 0, None])"
    by simp
  from find_coplanar_step_rule [of ?tree "1 / 1000" "[Some 0, None]" "\<lambda>f. ?p" 1
      "[\<lparr>plane = ?p, part_verts = [], part_edges = [], part_faces = [0]\<rparr>]"] M2
  have s2: "find_coplanar_step (\<lambda>f. ?p) ?tree (1 / 1000) 1
       ([\<lparr>plane = ?p, part_verts = [], part_edges = [], part_faces = [0]\<rparr>], [Some 0, None])
     = ([\<lparr>plane = ?p, part_verts = [], part_edges = [], part_faces = [1, 0]\<rparr>],
        [Some 0, Some 0])"
    by (simp add: add_face_to_part_def)
  from M1 M2 s1 s2 show ?thesis by simp
qed

section \<open>Properties of non-coplanar part-pair intersection\<close>

text \<open>
  Parts built by \<open>find_coplanar_parts\<close> hold faces only: a new part starts with empty
  lists of loose vertices and loose edges, and \<open>add_face_to_part\<close> is the one function
  that extends a part afterwards. The loops of \<open>non_coplanar_part_part_intersect\<close> over
  loose vertices and loose edges therefore run over empty lists for every part that
  \<open>BM_mesh_boolean\<close> hands to the intersector.
\<close>

lemma find_coplanar_step_faces_only:
  assumes "\<forall>p \<in> set (fst st). part_verts p = [] \<and> part_edges p = []"
  shows "\<forall>p \<in> set (fst (find_coplanar_step face_plane tree feps f st)).
           part_verts p = [] \<and> part_edges p = []"
proof -
  obtain partset fpart where st: "st = (partset, fpart)" by (cases st)
  have upd: "\<forall>p \<in> set (partset[k := add_face_to_part (partset ! k) g]).
               part_verts p = [] \<and> part_edges p = []" for k g
  proof (cases "k < length partset")
    case True
    then have "partset ! k \<in> set partset" by simp
    with assms st have "part_verts (add_face_to_part (partset ! k) g) = []
        \<and> part_edges (add_face_to_part (partset ! k) g) = []"
      by (simp add: add_face_to_part_def)
    with assms st show ?thesis
      using set_update_subset_insert [of partset k "add_face_to_part (partset ! k) g"] by auto
  next
    case False
    then have "partset[k := add_face_to_part (partset ! k) g] = partset"
      by (simp add: list_update_beyond)
    with assms st show ?thesis by simp
  qed
  show ?thesis
    using assms upd
    by (simp add: st find_coplanar_step_def Let_def split: option.splits)
qed

lemma find_coplanar_fold_faces_only:
  assumes "\<forall>p \<in> set (fst st). part_verts p = [] \<and> part_edges p = []"
  shows "\<forall>p \<in> set (fst (fold (find_coplanar_step face_plane tree feps) fs st)).
           part_verts p = [] \<and> part_edges p = []"
  using assms
proof (induction fs arbitrary: st)
  case Nil
  then show ?case by simp
next
  case (Cons f fs)
  from find_coplanar_step_faces_only [OF Cons.prems]
  have "\<forall>p \<in> set (fst (find_coplanar_step face_plane tree feps f st)).
           part_verts p = [] \<and> part_edges p = []" .
  from Cons.IH [OF this] show ?case by simp
qed

lemma find_coplanar_parts_faces_only:
  "\<forall>p \<in> set (find_coplanar_parts bs face_plane sides). part_verts p = [] \<and> part_edges p = []"
  using find_coplanar_fold_faces_only [of "([], replicate (totface (im bs)) None)"]
  by (simp add: find_coplanar_parts_def Let_def)

text \<open>
  The body of the loop over loose edges, run on a part that does carry a loose edge: the
  edge crosses the line of intersection at (1, 0, 0), neither end is on the line, the
  closest points coincide, and no mesh vertex is near. The vertex staged for the
  crossing has the coordinates (7, 7, 7) of the loose vertex visited last, because
  \<open>meshadd_add_vert_db\<close> is handed the array \<open>co\<close> and not \<open>co_close1\<close>.
\<close>

lemma loose_edge_stages_stale_co:
  "non_coplanar_part_part_intersect loose_edge_env (1 / 1000)
     \<lparr>plane = (0, 0, 1, 0), part_verts = [0], part_edges = [0], part_faces = []\<rparr> 0
     \<lparr>plane = (0, 1, 0, 0), part_verts = [], part_edges = [], part_faces = []\<rparr> 0
     (init_meshchange 3 1 0) (0, 0, 0)
   = (Some \<lparr>ppi_verts = [3], ppi_edges = [], ppi_faces = [], a_index = 0, b_index = 0\<rparr>,
      (init_meshchange 3 1 0)
        \<lparr>add := (init_meshadd 3 1)\<lparr>verts := [\<lparr>co = (7, 7, 7), v_example = - 1\<rparr>]\<rparr>\<rparr>)"
  by (simp add: non_coplanar_part_part_intersect_def loose_edge_env_def loose_vert_step_def
      loose_edge_step_def stage_vert_def meshadd_add_vert_db_def meshadd_add_vert_def
      meshadd_totvert_def add_vert_to_partpartintersect_def len_squared_v3v3_db_def
      init_meshchange_def init_meshadd_def Let_def)

lemma snap_or_stage_eq:
  "snap_or_stage env e c st =
     (st\<lparr>nc_change := (nc_change st)
            \<lparr>add := (if imesh_find_co_db env c e = - 1
                     then fst (meshadd_add_vert_db (float_of_double env) e (add (nc_change st)) c
                                 (- 1) True)
                     else add (nc_change st))\<rparr>\<rparr>,
      if imesh_find_co_db env c e = - 1
      then snd (meshadd_add_vert_db (float_of_double env) e (add (nc_change st)) c (- 1) True)
      else imesh_find_co_db env c e)"
  by (simp add: snap_or_stage_def stage_vert_def Let_def split_beta)

lemma meshadd_find_dup_Some:
  "meshadd_find_dup vs c feps = Some i \<Longrightarrow> i < length vs \<and> compare_v3v3 (co (vs ! i)) c feps"
  by (induction vs arbitrary: i) (auto split: if_splits)

lemma meshadd_add_vert_db_staged:
  "(\<exists>i<length (verts a).
       compare_v3v3 (co (verts a ! i)) (copy_v3fl_v3db fl c) (fl e)
       \<and> fst (meshadd_add_vert_db fl e a c eg True) = a
       \<and> snd (meshadd_add_vert_db fl e a c eg True) = vindex_start a + int i)
   \<or> (fst (meshadd_add_vert_db fl e a c eg True)
         = a\<lparr>verts := verts a @ [\<lparr>co = copy_v3fl_v3db fl c, v_example = eg\<rparr>]\<rparr>
       \<and> snd (meshadd_add_vert_db fl e a c eg True) = vindex_start a + int (length (verts a)))"
proof (cases "meshadd_find_dup (verts a) (copy_v3fl_v3db fl c) (fl e)")
  case None
  then show ?thesis
    by (simp add: meshadd_add_vert_db_def meshadd_add_vert_def meshadd_totvert_def Let_def)
next
  case (Some i)
  with meshadd_find_dup_Some [OF Some] show ?thesis
    by (auto simp add: meshadd_add_vert_db_def meshadd_add_vert_def)
qed

lemma meshadd_add_edge_appends:
  "edge_hash a (edgehash_key (uint_of_int p) (uint_of_int q)) = None \<Longrightarrow>
   meshadd_add_edge a p q eg True =
     (a\<lparr>edges := edges a @ [\<lparr>v1 = p, v2 = q, example = eg\<rparr>],
        edge_hash := (edge_hash a)(edgehash_key (uint_of_int p) (uint_of_int q)
                                     \<mapsto> int (length (edges a)))\<rparr>,
      eindex_start a + int (length (edges a)))"
  by (simp add: meshadd_add_edge_def BLI_edgehash_lookup_default_def BLI_edgehash_insert_def
      meshadd_totedge_def Let_def)

lemma add_vert_ppi_neq: "add_vert_to_partpartintersect ppi v \<noteq> ppi"
proof
  assume "add_vert_to_partpartintersect ppi v = ppi"
  then have "length (ppi_verts (add_vert_to_partpartintersect ppi v)) = length (ppi_verts ppi)"
    by simp
  then show False by (simp add: add_vert_to_partpartintersect_def)
qed

lemma add_edge_ppi_neq: "add_edge_to_partpartintersect ppi ed \<noteq> ppi"
proof
  assume "add_edge_to_partpartintersect ppi ed = ppi"
  then have "length (ppi_edges (add_edge_to_partpartintersect ppi ed)) = length (ppi_edges ppi)"
    by simp
  then show False by (simp add: add_edge_to_partpartintersect_def)
qed

text \<open>
  C6 (as amended): for one interval \<open>[a1, a2]\<close> of an A-face and one interval
  \<open>[b1, b2]\<close> of a B-face, with \<open>facstart = max a1 b1\<close> and \<open>facend = min a2 b2\<close>:
  the pair contributes nothing iff \<open>facend < facstart - eps\<close>, and then the state is
  left as it was. Otherwise, when the two end coordinates coincide within \<open>eps\<close>, the
  start coordinate is snapped or staged and that vertex is added to the record. When
  they do not coincide, both ends are snapped or staged, in this order; if the two
  resulting vertex indices are equal, that vertex alone is added to the record;
  otherwise an edge between them is looked up in the mesh and, failing that, staged by
  \<open>meshadd_add_edge\<close> with \<open>checkdup\<close>, and its index is added to the record and to the
  intersection-edge set. In each case the whole resulting state is given: the record,
  the add buffer after the stagings, the intersection-edge set and the array \<open>co\<close>.
  "Snapped" means that \<open>imesh_find_co_db\<close> found a mesh vertex, which is then used with
  the buffer unchanged; "staged" means that the buffer either already holds a vertex
  within the rounded \<open>eps\<close> of the rounded coordinate, which is reused, or is extended
  by a vertex at the rounded coordinate, with the extended index in both cases. An edge
  found in the mesh leaves the buffer unchanged; an edge whose end pair the buffer does
  not hold yet is appended to it and gets its extended index.
\<close>

theorem single_interval_intersect_rule:
  fixes env :: InterEnv and e :: real and iinfoa iinfob :: IntervalInfo and st :: NCState
  defines "fl \<equiv> float_of_double env"
  defines "facstart \<equiv> max (fst (fac iinfoa)) (fst (fac iinfob))"
  defines "facend \<equiv> min (snd (fac iinfoa)) (snd (fac iinfob))"
  defines "c \<equiv> (if facstart = fst (fac iinfoa) then fst (iv_co iinfoa) else fst (iv_co iinfob))"
  defines "c2 \<equiv> (if facend = snd (fac iinfoa) then snd (iv_co iinfoa) else snd (iv_co iinfob))"
  defines "a0 \<equiv> add (nc_change st)"
  defines "f1 \<equiv> imesh_find_co_db env c e"
  defines "pv1 \<equiv> (if f1 = - 1 then snd (meshadd_add_vert_db fl e a0 c (- 1) True) else f1)"
  defines "a1 \<equiv> (if f1 = - 1 then fst (meshadd_add_vert_db fl e a0 c (- 1) True) else a0)"
  defines "f2 \<equiv> imesh_find_co_db env c2 e"
  defines "pv2 \<equiv> (if f2 = - 1 then snd (meshadd_add_vert_db fl e a1 c2 (- 1) True) else f2)"
  defines "a2 \<equiv> (if f2 = - 1 then fst (meshadd_add_vert_db fl e a1 c2 (- 1) True) else a1)"
  defines "fe \<equiv> imesh_find_edge env pv1 pv2"
  defines "ed \<equiv> (if fe = - 1 then snd (meshadd_add_edge a2 pv1 pv2 (- 1) True) else fe)"
  defines "a3 \<equiv> (if fe = - 1 then fst (meshadd_add_edge a2 pv1 pv2 (- 1) True) else a2)"
  defines "st' \<equiv> single_interval_intersect env e iinfoa iinfob st"
  shows "(nc_ppi st' = nc_ppi st \<longleftrightarrow> facend < facstart - e)
       \<and> (facend < facstart - e \<longrightarrow> st' = st)
       \<and> (\<not> facend < facstart - e \<and> compare_v3v3_db c c2 e \<longrightarrow>
            st' = st\<lparr>nc_ppi := add_vert_to_partpartintersect (nc_ppi st) pv1,
                     nc_change := (nc_change st)\<lparr>add := a1\<rparr>,
                     nc_co := c\<rparr>)
       \<and> (\<not> facend < facstart - e \<and> \<not> compare_v3v3_db c c2 e \<and> pv1 = pv2 \<longrightarrow>
            st' = st\<lparr>nc_ppi := add_vert_to_partpartintersect (nc_ppi st) pv1,
                     nc_change := (nc_change st)\<lparr>add := a2\<rparr>,
                     nc_co := c\<rparr>)
       \<and> (\<not> facend < facstart - e \<and> \<not> compare_v3v3_db c c2 e \<and> pv1 \<noteq> pv2 \<longrightarrow>
            st' = st\<lparr>nc_ppi := add_edge_to_partpartintersect (nc_ppi st) ed,
                     nc_change := (nc_change st)
                        \<lparr>add := a3,
                         intersection_edges :=
                           add_to_intset (intersection_edges (nc_change st)) ed\<rparr>,
                     nc_co := c\<rparr>
            \<and> find_in_intset (intersection_edges (nc_change st')) ed
            \<and> verts (add (nc_change st')) = verts a2)
       \<and> (f1 = - 1 \<longrightarrow>
            (\<exists>i<length (verts a0).
                compare_v3v3 (co (verts a0 ! i)) (copy_v3fl_v3db fl c) (fl e)
                \<and> a1 = a0 \<and> pv1 = vindex_start a0 + int i)
            \<or> (a1 = a0\<lparr>verts := verts a0 @ [\<lparr>co = copy_v3fl_v3db fl c, v_example = - 1\<rparr>]\<rparr>
                \<and> pv1 = vindex_start a0 + int (length (verts a0))))
       \<and> (f2 = - 1 \<longrightarrow>
            (\<exists>i<length (verts a1).
                compare_v3v3 (co (verts a1 ! i)) (copy_v3fl_v3db fl c2) (fl e)
                \<and> a2 = a1 \<and> pv2 = vindex_start a1 + int i)
            \<or> (a2 = a1\<lparr>verts := verts a1 @ [\<lparr>co = copy_v3fl_v3db fl c2, v_example = - 1\<rparr>]\<rparr>
                \<and> pv2 = vindex_start a1 + int (length (verts a1))))
       \<and> (fe \<noteq> - 1 \<longrightarrow> ed = fe \<and> a3 = a2)
       \<and> (fe = - 1 \<and> edge_hash a2 (edgehash_key (uint_of_int pv1) (uint_of_int pv2)) = None \<longrightarrow>
            a3 = a2\<lparr>edges := edges a2 @ [\<lparr>v1 = pv1, v2 = pv2, example = - 1\<rparr>],
                    edge_hash := (edge_hash a2)(edgehash_key (uint_of_int pv1) (uint_of_int pv2)
                                                  \<mapsto> int (length (edges a2)))\<rparr>
            \<and> ed = eindex_start a2 + int (length (edges a2)))"
proof -
  define s1 where "s1 = snap_or_stage env e c (st\<lparr>nc_co := c\<rparr>)"
  define s2 where "s2 = snap_or_stage env e c2 (fst s1)"
  have s1: "fst s1 = st\<lparr>nc_change := (nc_change st)\<lparr>add := a1\<rparr>, nc_co := c\<rparr>" "snd s1 = pv1"
    by (simp_all add: s1_def snap_or_stage_eq a1_def pv1_def f1_def a0_def fl_def)
  have s2: "fst s2 = st\<lparr>nc_change := (nc_change st)\<lparr>add := a2\<rparr>, nc_co := c\<rparr>" "snd s2 = pv2"
    by (simp_all add: s2_def s1 snap_or_stage_eq a2_def pv2_def f2_def fl_def)
  define staged where
    "staged = (if fe = - 1 then meshadd_add_edge a2 pv1 pv2 (- 1) True else (a2, fe))"
  have staged: "fst staged = a3" "snd staged = ed"
    by (simp_all add: staged_def a3_def ed_def)
  have staged': "staged =
     (if imesh_find_edge env (snd s1) (snd s2) = - 1
      then meshadd_add_edge (add (nc_change (fst s2))) (snd s1) (snd s2) (- 1) True
      else (add (nc_change (fst s2)), imesh_find_edge env (snd s1) (snd s2)))"
    by (simp add: staged_def s1 s2 fe_def)
  have st'_eq: "st' =
     (if facend < facstart - e then st
      else if compare_v3v3_db c c2 e
      then (fst s1)\<lparr>nc_ppi := add_vert_to_partpartintersect (nc_ppi (fst s1)) (snd s1)\<rparr>
      else if snd s1 = snd s2
      then (fst s2)\<lparr>nc_ppi := add_vert_to_partpartintersect (nc_ppi (fst s2)) (snd s1)\<rparr>
      else (fst s2)\<lparr>nc_ppi := add_edge_to_partpartintersect (nc_ppi (fst s2)) (snd staged),
                     nc_change := (nc_change (fst s2))
                        \<lparr>add := fst staged,
                         intersection_edges :=
                           add_to_intset (intersection_edges (nc_change (fst s2))) (snd staged)\<rparr>\<rparr>)"
    by (simp only: st'_def single_interval_intersect_def Let_def split_beta staged'
        s2_def s1_def c2_def c_def facend_def facstart_def)
  have skip: "st' = st" if "facend < facstart - e"
    using that st'_eq by simp
  have point: "st' = st\<lparr>nc_ppi := add_vert_to_partpartintersect (nc_ppi st) pv1,
                     nc_change := (nc_change st)\<lparr>add := a1\<rparr>, nc_co := c\<rparr>"
    if "\<not> facend < facstart - e" "compare_v3v3_db c c2 e"
    using that st'_eq by (simp add: s1)
  have same: "st' = st\<lparr>nc_ppi := add_vert_to_partpartintersect (nc_ppi st) pv1,
                     nc_change := (nc_change st)\<lparr>add := a2\<rparr>, nc_co := c\<rparr>"
    if "\<not> facend < facstart - e" "\<not> compare_v3v3_db c c2 e" "pv1 = pv2"
    using that st'_eq by (simp add: s1 s2)
  have edge: "st' = st\<lparr>nc_ppi := add_edge_to_partpartintersect (nc_ppi st) ed,
                     nc_change := (nc_change st)
                        \<lparr>add := a3,
                         intersection_edges :=
                           add_to_intset (intersection_edges (nc_change st)) ed\<rparr>,
                     nc_co := c\<rparr>"
    if "\<not> facend < facstart - e" "\<not> compare_v3v3_db c c2 e" "pv1 \<noteq> pv2"
    using that st'_eq by (simp add: s1 s2 staged)
  have member: "find_in_intset (add_to_intset s x) x" for s x
    by (simp add: add_to_intset_def)
  have edge_keeps: "verts (fst (meshadd_add_edge a p q eg cd)) = verts a" for a p q eg cd
    by (simp add: meshadd_add_edge_def Let_def)
  have a3_verts: "verts a3 = verts a2"
    by (simp add: a3_def edge_keeps)
  have iff: "nc_ppi st' = nc_ppi st \<longleftrightarrow> facend < facstart - e"
  proof (cases "facend < facstart - e")
    case True
    with skip show ?thesis by simp
  next
    case False
    note nf = this
    show ?thesis
    proof (cases "compare_v3v3_db c c2 e")
      case True
      with point [OF nf] nf add_vert_ppi_neq show ?thesis by simp
    next
      case False
      show ?thesis
      proof (cases "pv1 = pv2")
        case True
        with same [OF nf False] nf add_vert_ppi_neq show ?thesis by simp
      next
        case ne: False
        from edge [OF nf False ne] nf add_edge_ppi_neq show ?thesis by simp
      qed
    qed
  qed
  have v1: "(\<exists>i<length (verts a0).
                compare_v3v3 (co (verts a0 ! i)) (copy_v3fl_v3db fl c) (fl e)
                \<and> a1 = a0 \<and> pv1 = vindex_start a0 + int i)
            \<or> (a1 = a0\<lparr>verts := verts a0 @ [\<lparr>co = copy_v3fl_v3db fl c, v_example = - 1\<rparr>]\<rparr>
                \<and> pv1 = vindex_start a0 + int (length (verts a0)))" if "f1 = - 1"
    using that meshadd_add_vert_db_staged [of a0 fl c e "- 1"] by (simp add: a1_def pv1_def)
  have v2: "(\<exists>i<length (verts a1).
                compare_v3v3 (co (verts a1 ! i)) (copy_v3fl_v3db fl c2) (fl e)
                \<and> a2 = a1 \<and> pv2 = vindex_start a1 + int i)
            \<or> (a2 = a1\<lparr>verts := verts a1 @ [\<lparr>co = copy_v3fl_v3db fl c2, v_example = - 1\<rparr>]\<rparr>
                \<and> pv2 = vindex_start a1 + int (length (verts a1)))" if "f2 = - 1"
    using that meshadd_add_vert_db_staged [of a1 fl c2 e "- 1"] by (simp add: a2_def pv2_def)
  have found: "ed = fe \<and> a3 = a2" if "fe \<noteq> - 1"
    using that by (simp add: ed_def a3_def)
  have fresh: "a3 = a2\<lparr>edges := edges a2 @ [\<lparr>v1 = pv1, v2 = pv2, example = - 1\<rparr>],
                    edge_hash := (edge_hash a2)(edgehash_key (uint_of_int pv1) (uint_of_int pv2)
                                                  \<mapsto> int (length (edges a2)))\<rparr>
            \<and> ed = eindex_start a2 + int (length (edges a2))"
    if "fe = - 1" "edge_hash a2 (edgehash_key (uint_of_int pv1) (uint_of_int pv2)) = None"
    using that meshadd_add_edge_appends [of a2 pv1 pv2 "- 1"] by (simp add: ed_def a3_def)
  have edge_all: "st' = st\<lparr>nc_ppi := add_edge_to_partpartintersect (nc_ppi st) ed,
                     nc_change := (nc_change st)
                        \<lparr>add := a3,
                         intersection_edges :=
                           add_to_intset (intersection_edges (nc_change st)) ed\<rparr>,
                     nc_co := c\<rparr>
            \<and> find_in_intset (intersection_edges (nc_change st')) ed
            \<and> verts (add (nc_change st')) = verts a2"
    if "\<not> facend < facstart - e" "\<not> compare_v3v3_db c c2 e" "pv1 \<noteq> pv2"
    using edge [OF that] member a3_verts by simp
  show ?thesis
    using iff skip point same edge_all v1 v2 found fresh by blast
qed

lemmas interval_eval_defs =
  single_interval_intersect_def snap_or_stage_def stage_vert_def meshadd_add_vert_db_def
  meshadd_add_vert_def meshadd_totvert_def meshadd_add_edge_def meshadd_totedge_def
  BLI_edgehash_lookup_default_def BLI_edgehash_insert_def edgehash_key_def uint_of_int_def
  add_vert_to_partpartintersect_def add_edge_to_partpartintersect_def add_to_intset_def
  len_squared_v3v3_db_def init_meshchange_def init_meshadd_def empty_ppi_def Let_def

text \<open>
  C6 (as stated) fails: the overlap is not empty, its end coordinates are 0.012 apart
  with \<open>eps = 0.01\<close>, so they do not coincide within \<open>eps\<close>, yet both snap to mesh
  vertex 0 at the origin. The pair then contributes that single vertex and no edge, and
  the intersection-edge set stays empty.
\<close>

theorem single_interval_same_snap_no_edge:
  "\<not> min (1::real) 1 < max 0 0 - 1 / 100
   \<and> \<not> compare_v3v3_db (- (3 / 500), 0, 0) (3 / 500, 0, 0) (1 / 100)
   \<and> nc_ppi (single_interval_intersect origin_vertex_env (1 / 100)
         \<lparr>fac = (0, 1), iv_co = ((- (3 / 500), 0, 0), (3 / 500, 0, 0))\<rparr>
         \<lparr>fac = (0, 1), iv_co = ((- (3 / 500), 0, 0), (3 / 500, 0, 0))\<rparr>
         \<lparr>nc_ppi = empty_ppi, nc_change = init_meshchange 1 0 0, nc_co = (0, 0, 0)\<rparr>)
     = empty_ppi\<lparr>ppi_verts := [0]\<rparr>
   \<and> intersection_edges (nc_change (single_interval_intersect origin_vertex_env (1 / 100)
         \<lparr>fac = (0, 1), iv_co = ((- (3 / 500), 0, 0), (3 / 500, 0, 0))\<rparr>
         \<lparr>fac = (0, 1), iv_co = ((- (3 / 500), 0, 0), (3 / 500, 0, 0))\<rparr>
         \<lparr>nc_ppi = empty_ppi, nc_change = init_meshchange 1 0 0, nc_co = (0, 0, 0)\<rparr>))
     = []"
  by (simp add: interval_eval_defs origin_vertex_env_def)

theorem single_interval_intersect_rule_witness:
  "(\<not> min (1::real) 1 < max 0 0 - 1 / 1000
   \<and> \<not> compare_v3v3_db (0, 0, 0) (1, 0, 0) (1 / 1000)
   \<and> imesh_find_co_db loose_edge_env (0, 0, 0) (1 / 1000) = - 1
   \<and> imesh_find_co_db loose_edge_env (1, 0, 0) (1 / 1000) = - 1
   \<and> imesh_find_edge loose_edge_env 4 5 = - 1
   \<and> edge_hash (add (init_meshchange 4 5 0)) (edgehash_key (uint_of_int 4) (uint_of_int 5)) = None
   \<and> nc_ppi (single_interval_intersect loose_edge_env (1 / 1000)
         \<lparr>fac = (0, 1), iv_co = ((0, 0, 0), (1, 0, 0))\<rparr>
         \<lparr>fac = (0, 1), iv_co = ((0, 0, 0), (1, 0, 0))\<rparr>
         \<lparr>nc_ppi = empty_ppi, nc_change = init_meshchange 4 5 0, nc_co = (0, 0, 0)\<rparr>)
     = empty_ppi\<lparr>ppi_edges := [5]\<rparr>
   \<and> intersection_edges (nc_change (single_interval_intersect loose_edge_env (1 / 1000)
         \<lparr>fac = (0, 1), iv_co = ((0, 0, 0), (1, 0, 0))\<rparr>
         \<lparr>fac = (0, 1), iv_co = ((0, 0, 0), (1, 0, 0))\<rparr>
         \<lparr>nc_ppi = empty_ppi, nc_change = init_meshchange 4 5 0, nc_co = (0, 0, 0)\<rparr>))
     = [5]
   \<and> verts (add (nc_change (single_interval_intersect loose_edge_env (1 / 1000)
         \<lparr>fac = (0, 1), iv_co = ((0, 0, 0), (1, 0, 0))\<rparr>
         \<lparr>fac = (0, 1), iv_co = ((0, 0, 0), (1, 0, 0))\<rparr>
         \<lparr>nc_ppi = empty_ppi, nc_change = init_meshchange 4 5 0, nc_co = (0, 0, 0)\<rparr>)))
     = [\<lparr>co = (0, 0, 0), v_example = - 1\<rparr>, \<lparr>co = (1, 0, 0), v_example = - 1\<rparr>]
   \<and> edges (add (nc_change (single_interval_intersect loose_edge_env (1 / 1000)
         \<lparr>fac = (0, 1), iv_co = ((0, 0, 0), (1, 0, 0))\<rparr>
         \<lparr>fac = (0, 1), iv_co = ((0, 0, 0), (1, 0, 0))\<rparr>
         \<lparr>nc_ppi = empty_ppi, nc_change = init_meshchange 4 5 0, nc_co = (0, 0, 0)\<rparr>)))
     = [\<lparr>v1 = 4, v2 = 5, example = - 1\<rparr>])
   \<and> ((2::real) < 3 - 1 / 1000
   \<and> single_interval_intersect loose_edge_env (1 / 1000)
         \<lparr>fac = (0, 2), iv_co = ((0, 0, 0), (2, 0, 0))\<rparr>
         \<lparr>fac = (3, 4), iv_co = ((3, 0, 0), (4, 0, 0))\<rparr>
         \<lparr>nc_ppi = empty_ppi, nc_change = init_meshchange 4 5 0, nc_co = (0, 0, 0)\<rparr>
     = \<lparr>nc_ppi = empty_ppi, nc_change = init_meshchange 4 5 0, nc_co = (0, 0, 0)\<rparr>)
   \<and> (compare_v3v3_db (1, 0, 0) (1, 0, 0) (1 / 1000)
   \<and> nc_ppi (single_interval_intersect loose_edge_env (1 / 1000)
         \<lparr>fac = (0, 1), iv_co = ((0, 0, 0), (1, 0, 0))\<rparr>
         \<lparr>fac = (1, 2), iv_co = ((1, 0, 0), (2, 0, 0))\<rparr>
         \<lparr>nc_ppi = empty_ppi, nc_change = init_meshchange 4 5 0, nc_co = (0, 0, 0)\<rparr>)
     = empty_ppi\<lparr>ppi_verts := [4]\<rparr>
   \<and> verts (add (nc_change (single_interval_intersect loose_edge_env (1 / 1000)
         \<lparr>fac = (0, 1), iv_co = ((0, 0, 0), (1, 0, 0))\<rparr>
         \<lparr>fac = (1, 2), iv_co = ((1, 0, 0), (2, 0, 0))\<rparr>
         \<lparr>nc_ppi = empty_ppi, nc_change = init_meshchange 4 5 0, nc_co = (0, 0, 0)\<rparr>)))
     = [\<lparr>co = (1, 0, 0), v_example = - 1\<rparr>])
   \<and> (\<not> compare_v3v3_db (- (3 / 500), 0, 0) (3 / 500, 0, 0) (1 / 100)
   \<and> imesh_find_co_db origin_vertex_env (- (3 / 500), 0, 0) (1 / 100) = 0
   \<and> imesh_find_co_db origin_vertex_env (3 / 500, 0, 0) (1 / 100) = 0
   \<and> nc_ppi (single_interval_intersect origin_vertex_env (1 / 100)
         \<lparr>fac = (0, 1), iv_co = ((- (3 / 500), 0, 0), (3 / 500, 0, 0))\<rparr>
         \<lparr>fac = (0, 1), iv_co = ((- (3 / 500), 0, 0), (3 / 500, 0, 0))\<rparr>
         \<lparr>nc_ppi = empty_ppi, nc_change = init_meshchange 1 0 0, nc_co = (0, 0, 0)\<rparr>)
     = empty_ppi\<lparr>ppi_verts := [0]\<rparr>
   \<and> nc_change (single_interval_intersect origin_vertex_env (1 / 100)
         \<lparr>fac = (0, 1), iv_co = ((- (3 / 500), 0, 0), (3 / 500, 0, 0))\<rparr>
         \<lparr>fac = (0, 1), iv_co = ((- (3 / 500), 0, 0), (3 / 500, 0, 0))\<rparr>
         \<lparr>nc_ppi = empty_ppi, nc_change = init_meshchange 1 0 0, nc_co = (0, 0, 0)\<rparr>)
     = init_meshchange 1 0 0)
   \<and> (imesh_find_edge (loose_edge_env\<lparr>imesh_find_edge := (\<lambda>a b. 2)\<rparr>) 4 5 \<noteq> - 1
   \<and> nc_ppi (single_interval_intersect (loose_edge_env\<lparr>imesh_find_edge := (\<lambda>a b. 2)\<rparr>) (1 / 1000)
         \<lparr>fac = (0, 1), iv_co = ((0, 0, 0), (1, 0, 0))\<rparr>
         \<lparr>fac = (0, 1), iv_co = ((0, 0, 0), (1, 0, 0))\<rparr>
         \<lparr>nc_ppi = empty_ppi, nc_change = init_meshchange 4 5 0, nc_co = (0, 0, 0)\<rparr>)
     = empty_ppi\<lparr>ppi_edges := [2]\<rparr>
   \<and> intersection_edges (nc_change (single_interval_intersect (loose_edge_env\<lparr>imesh_find_edge := (\<lambda>a b. 2)\<rparr>) (1 / 1000)
         \<lparr>fac = (0, 1), iv_co = ((0, 0, 0), (1, 0, 0))\<rparr>
         \<lparr>fac = (0, 1), iv_co = ((0, 0, 0), (1, 0, 0))\<rparr>
         \<lparr>nc_ppi = empty_ppi, nc_change = init_meshchange 4 5 0, nc_co = (0, 0, 0)\<rparr>))
     = [2]
   \<and> edges (add (nc_change (single_interval_intersect (loose_edge_env\<lparr>imesh_find_edge := (\<lambda>a b. 2)\<rparr>) (1 / 1000)
         \<lparr>fac = (0, 1), iv_co = ((0, 0, 0), (1, 0, 0))\<rparr>
         \<lparr>fac = (0, 1), iv_co = ((0, 0, 0), (1, 0, 0))\<rparr>
         \<lparr>nc_ppi = empty_ppi, nc_change = init_meshchange 4 5 0, nc_co = (0, 0, 0)\<rparr>)))
     = [])"
proof -
  have edge: "\<not> min (1::real) 1 < max 0 0 - 1 / 1000
   \<and> \<not> compare_v3v3_db (0, 0, 0) (1, 0, 0) (1 / 1000)
   \<and> imesh_find_co_db loose_edge_env (0, 0, 0) (1 / 1000) = - 1
   \<and> imesh_find_co_db loose_edge_env (1, 0, 0) (1 / 1000) = - 1
   \<and> imesh_find_edge loose_edge_env 4 5 = - 1
   \<and> edge_hash (add (init_meshchange 4 5 0)) (edgehash_key (uint_of_int 4) (uint_of_int 5)) = None
   \<and> nc_ppi (single_interval_intersect loose_edge_env (1 / 1000)
         \<lparr>fac = (0, 1), iv_co = ((0, 0, 0), (1, 0, 0))\<rparr>
         \<lparr>fac = (0, 1), iv_co = ((0, 0, 0), (1, 0, 0))\<rparr>
         \<lparr>nc_ppi = empty_ppi, nc_change = init_meshchange 4 5 0, nc_co = (0, 0, 0)\<rparr>)
     = empty_ppi\<lparr>ppi_edges := [5]\<rparr>
   \<and> intersection_edges (nc_change (single_interval_intersect loose_edge_env (1 / 1000)
         \<lparr>fac = (0, 1), iv_co = ((0, 0, 0), (1, 0, 0))\<rparr>
         \<lparr>fac = (0, 1), iv_co = ((0, 0, 0), (1, 0, 0))\<rparr>
         \<lparr>nc_ppi = empty_ppi, nc_change = init_meshchange 4 5 0, nc_co = (0, 0, 0)\<rparr>))
     = [5]
   \<and> verts (add (nc_change (single_interval_intersect loose_edge_env (1 / 1000)
         \<lparr>fac = (0, 1), iv_co = ((0, 0, 0), (1, 0, 0))\<rparr>
         \<lparr>fac = (0, 1), iv_co = ((0, 0, 0), (1, 0, 0))\<rparr>
         \<lparr>nc_ppi = empty_ppi, nc_change = init_meshchange 4 5 0, nc_co = (0, 0, 0)\<rparr>)))
     = [\<lparr>co = (0, 0, 0), v_example = - 1\<rparr>, \<lparr>co = (1, 0, 0), v_example = - 1\<rparr>]
   \<and> edges (add (nc_change (single_interval_intersect loose_edge_env (1 / 1000)
         \<lparr>fac = (0, 1), iv_co = ((0, 0, 0), (1, 0, 0))\<rparr>
         \<lparr>fac = (0, 1), iv_co = ((0, 0, 0), (1, 0, 0))\<rparr>
         \<lparr>nc_ppi = empty_ppi, nc_change = init_meshchange 4 5 0, nc_co = (0, 0, 0)\<rparr>)))
     = [\<lparr>v1 = 4, v2 = 5, example = - 1\<rparr>]"
    using single_interval_intersect_rule
      [where iinfoa = "\<lparr>fac = (0, 1), iv_co = ((0, 0, 0), (1, 0, 0))\<rparr>"
         and iinfob = "\<lparr>fac = (0, 1), iv_co = ((0, 0, 0), (1, 0, 0))\<rparr>"
         and env = loose_edge_env and e = "1 / 1000"
         and st = "\<lparr>nc_ppi = empty_ppi, nc_change = init_meshchange 4 5 0, nc_co = (0, 0, 0)\<rparr>"]
    by (simp add: interval_eval_defs loose_edge_env_def)
  have skip: "(2::real) < 3 - 1 / 1000
   \<and> single_interval_intersect loose_edge_env (1 / 1000)
         \<lparr>fac = (0, 2), iv_co = ((0, 0, 0), (2, 0, 0))\<rparr>
         \<lparr>fac = (3, 4), iv_co = ((3, 0, 0), (4, 0, 0))\<rparr>
         \<lparr>nc_ppi = empty_ppi, nc_change = init_meshchange 4 5 0, nc_co = (0, 0, 0)\<rparr>
     = \<lparr>nc_ppi = empty_ppi, nc_change = init_meshchange 4 5 0, nc_co = (0, 0, 0)\<rparr>"
    using single_interval_intersect_rule
      [where iinfoa = "\<lparr>fac = (0, 2), iv_co = ((0, 0, 0), (2, 0, 0))\<rparr>"
         and iinfob = "\<lparr>fac = (3, 4), iv_co = ((3, 0, 0), (4, 0, 0))\<rparr>"
         and env = loose_edge_env and e = "1 / 1000"
         and st = "\<lparr>nc_ppi = empty_ppi, nc_change = init_meshchange 4 5 0, nc_co = (0, 0, 0)\<rparr>"]
    by (simp add: interval_eval_defs loose_edge_env_def)
  have point: "compare_v3v3_db (1, 0, 0) (1, 0, 0) (1 / 1000)
   \<and> nc_ppi (single_interval_intersect loose_edge_env (1 / 1000)
         \<lparr>fac = (0, 1), iv_co = ((0, 0, 0), (1, 0, 0))\<rparr>
         \<lparr>fac = (1, 2), iv_co = ((1, 0, 0), (2, 0, 0))\<rparr>
         \<lparr>nc_ppi = empty_ppi, nc_change = init_meshchange 4 5 0, nc_co = (0, 0, 0)\<rparr>)
     = empty_ppi\<lparr>ppi_verts := [4]\<rparr>
   \<and> verts (add (nc_change (single_interval_intersect loose_edge_env (1 / 1000)
         \<lparr>fac = (0, 1), iv_co = ((0, 0, 0), (1, 0, 0))\<rparr>
         \<lparr>fac = (1, 2), iv_co = ((1, 0, 0), (2, 0, 0))\<rparr>
         \<lparr>nc_ppi = empty_ppi, nc_change = init_meshchange 4 5 0, nc_co = (0, 0, 0)\<rparr>)))
     = [\<lparr>co = (1, 0, 0), v_example = - 1\<rparr>]"
    using single_interval_intersect_rule
      [where iinfoa = "\<lparr>fac = (0, 1), iv_co = ((0, 0, 0), (1, 0, 0))\<rparr>"
         and iinfob = "\<lparr>fac = (1, 2), iv_co = ((1, 0, 0), (2, 0, 0))\<rparr>"
         and env = loose_edge_env and e = "1 / 1000"
         and st = "\<lparr>nc_ppi = empty_ppi, nc_change = init_meshchange 4 5 0, nc_co = (0, 0, 0)\<rparr>"]
    by (simp add: interval_eval_defs loose_edge_env_def)
  have same: "\<not> compare_v3v3_db (- (3 / 500), 0, 0) (3 / 500, 0, 0) (1 / 100)
   \<and> imesh_find_co_db origin_vertex_env (- (3 / 500), 0, 0) (1 / 100) = 0
   \<and> imesh_find_co_db origin_vertex_env (3 / 500, 0, 0) (1 / 100) = 0
   \<and> nc_ppi (single_interval_intersect origin_vertex_env (1 / 100)
         \<lparr>fac = (0, 1), iv_co = ((- (3 / 500), 0, 0), (3 / 500, 0, 0))\<rparr>
         \<lparr>fac = (0, 1), iv_co = ((- (3 / 500), 0, 0), (3 / 500, 0, 0))\<rparr>
         \<lparr>nc_ppi = empty_ppi, nc_change = init_meshchange 1 0 0, nc_co = (0, 0, 0)\<rparr>)
     = empty_ppi\<lparr>ppi_verts := [0]\<rparr>
   \<and> nc_change (single_interval_intersect origin_vertex_env (1 / 100)
         \<lparr>fac = (0, 1), iv_co = ((- (3 / 500), 0, 0), (3 / 500, 0, 0))\<rparr>
         \<lparr>fac = (0, 1), iv_co = ((- (3 / 500), 0, 0), (3 / 500, 0, 0))\<rparr>
         \<lparr>nc_ppi = empty_ppi, nc_change = init_meshchange 1 0 0, nc_co = (0, 0, 0)\<rparr>)
     = init_meshchange 1 0 0"
    using single_interval_intersect_rule
      [where iinfoa = "\<lparr>fac = (0, 1), iv_co = ((- (3 / 500), 0, 0), (3 / 500, 0, 0))\<rparr>"
         and iinfob = "\<lparr>fac = (0, 1), iv_co = ((- (3 / 500), 0, 0), (3 / 500, 0, 0))\<rparr>"
         and env = origin_vertex_env and e = "1 / 100"
         and st = "\<lparr>nc_ppi = empty_ppi, nc_change = init_meshchange 1 0 0, nc_co = (0, 0, 0)\<rparr>"]
    by (simp add: interval_eval_defs origin_vertex_env_def)
  have found: "imesh_find_edge (loose_edge_env\<lparr>imesh_find_edge := (\<lambda>a b. 2)\<rparr>) 4 5 \<noteq> - 1
   \<and> nc_ppi (single_interval_intersect (loose_edge_env\<lparr>imesh_find_edge := (\<lambda>a b. 2)\<rparr>) (1 / 1000)
         \<lparr>fac = (0, 1), iv_co = ((0, 0, 0), (1, 0, 0))\<rparr>
         \<lparr>fac = (0, 1), iv_co = ((0, 0, 0), (1, 0, 0))\<rparr>
         \<lparr>nc_ppi = empty_ppi, nc_change = init_meshchange 4 5 0, nc_co = (0, 0, 0)\<rparr>)
     = empty_ppi\<lparr>ppi_edges := [2]\<rparr>
   \<and> intersection_edges (nc_change (single_interval_intersect (loose_edge_env\<lparr>imesh_find_edge := (\<lambda>a b. 2)\<rparr>) (1 / 1000)
         \<lparr>fac = (0, 1), iv_co = ((0, 0, 0), (1, 0, 0))\<rparr>
         \<lparr>fac = (0, 1), iv_co = ((0, 0, 0), (1, 0, 0))\<rparr>
         \<lparr>nc_ppi = empty_ppi, nc_change = init_meshchange 4 5 0, nc_co = (0, 0, 0)\<rparr>))
     = [2]
   \<and> edges (add (nc_change (single_interval_intersect (loose_edge_env\<lparr>imesh_find_edge := (\<lambda>a b. 2)\<rparr>) (1 / 1000)
         \<lparr>fac = (0, 1), iv_co = ((0, 0, 0), (1, 0, 0))\<rparr>
         \<lparr>fac = (0, 1), iv_co = ((0, 0, 0), (1, 0, 0))\<rparr>
         \<lparr>nc_ppi = empty_ppi, nc_change = init_meshchange 4 5 0, nc_co = (0, 0, 0)\<rparr>)))
     = []"
    using single_interval_intersect_rule
      [where iinfoa = "\<lparr>fac = (0, 1), iv_co = ((0, 0, 0), (1, 0, 0))\<rparr>"
         and iinfob = "\<lparr>fac = (0, 1), iv_co = ((0, 0, 0), (1, 0, 0))\<rparr>"
         and env = "loose_edge_env\<lparr>imesh_find_edge := (\<lambda>a b. 2)\<rparr>" and e = "1 / 1000"
         and st = "\<lparr>nc_ppi = empty_ppi, nc_change = init_meshchange 4 5 0, nc_co = (0, 0, 0)\<rparr>"]
    by (simp add: interval_eval_defs loose_edge_env_def)
  from edge skip point same found show ?thesis by blast
qed


end
